theory Spec2Isabelle
  imports Complex_Main "HOL-Library.Word"
begin

section \<open>Pose visualisation: \<^verbatim>\<open>mmpose/core/visualization/image.py\<close>\<close>

text \<open>
  The module turns boxes, keypoints and skeletons into calls of the drawing primitives of
  OpenCV and matplotlib. The embedding keeps the control flow of the three functions
  (loops, guards, assertions, index arithmetic) and makes the libraries explicit:

  \<^item> an image is a buffer of \<open>uint8\<close> BGR pixels with its shape;
  \<^item> a drawing call of OpenCV first checks its arguments: a point whose coordinate does
    not fit a C \<open>int\<close>, a negative radius or a thickness out of range raises
    \<open>cv2.error\<close>; otherwise it writes its colour into exactly the pixels it covers
    (line type \<open>LINE_8\<close>). Which pixels a circle, a line, a polygon, a rectangle or a
    text covers is a parameter, collected in the record \<open>raster\<close>;
  \<^item> \<open>cv2.addWeighted\<close> is the documented per-channel formula
    \<open>saturate (round (a * alpha + b * beta + gamma))\<close>;
  \<^item> the steps of matplotlib that can fail (creating the figure, showing the input image,
    drawing the canvas) are parameters, collected in the record \<open>mpl\<close>;
  \<^item> NumPy floats are real numbers (finite values; no NaN), Python integers are \<open>int\<close>;
  \<^item> every \<open>raise\<close> of the Python code is a value \<open>Inl e\<close>; an image drawn on
    before the \<open>raise\<close> is not part of that value.
\<close>

subsection \<open>Python and NumPy basics\<close>

datatype py_error = AssertionError | IndexError | ZeroDivisionError | ValueError | Cv2Error

text \<open>\<open>int(v)\<close> of a float truncates towards zero.\<close>

definition py_int :: "real \<Rightarrow> int" where
  "py_int v = (if 0 \<le> v then \<lfloor>v\<rfloor> else \<lceil>v\<rceil>)"

text \<open>The values of a C \<open>int\<close> (32 bits), which is also the range of \<open>np.int32\<close>.\<close>

definition c_int :: "int \<Rightarrow> bool" where
  "c_int v = (- (2 ^ 31) \<le> v \<and> v < 2 ^ 31)"

text \<open>
  \<open>a.astype(np.int32)\<close> on a float: truncation towards zero when the result fits; out
  of range the C conversion gives the smallest value \<open>-2^31\<close> (x86).
\<close>

definition np_int32 :: "real \<Rightarrow> int" where
  "np_int32 v = (if c_int (py_int v) then py_int v else - (2 ^ 31))"

text \<open>
  \<open>a[i]\<close> on the first axis of an array: an index in \<open>[-n, n)\<close> is accepted, a
  negative one counts from the end, anything else raises \<open>IndexError\<close>.
\<close>

definition np_index :: "'a list \<Rightarrow> int \<Rightarrow> py_error + 'a" where
  "np_index xs i =
     (let n = int (length xs) in
      if - n \<le> i \<and> i < n then Inr (xs ! nat (if i < 0 then i + n else i))
      else Inl IndexError)"

subsection \<open>Images and the OpenCV primitives\<close>

text \<open>
  A colour is a row of an integer colour array (or a tuple of \<open>mmcv.color_val\<close>); its
  components are converted to a \<open>Scalar\<close> of doubles without failure and saturated to
  \<open>uint8\<close> where they are written.
\<close>

type_synonym color = "int \<times> int \<times> int"
type_synonym pixel = "8 word \<times> 8 word \<times> 8 word"
type_synonym point = "int \<times> int"

text \<open>A mask tells whether the pixel in column \<open>x\<close> of row \<open>y\<close> is covered.\<close>

type_synonym mask = "nat \<Rightarrow> nat \<Rightarrow> bool"

record image =
  img_h :: nat
  img_w :: nat
  img_rows :: "pixel list list"

text \<open>
  The rasterisers of OpenCV and its font renderer. \<open>text_ok\<close> tells whether
  \<open>cv2.getTextSize\<close> and \<open>cv2.putText\<close> accept a text, a font scale and a thickness.
  \<open>scalar_int\<close> is the result type of an operation between a NumPy \<open>int32\<close> scalar and
  a Python integer: the identity where the result has 64 bits (NumPy 1), the wrap-around
  to 32 bits where it stays \<open>int32\<close> (NumPy 2).
\<close>

record raster =
  circle_px :: "point \<Rightarrow> int \<Rightarrow> mask"
  line_px :: "point \<Rightarrow> point \<Rightarrow> int \<Rightarrow> mask"
  limb_poly_px :: "point \<Rightarrow> point \<Rightarrow> mask"
  rectangle_px :: "point \<Rightarrow> point \<Rightarrow> int \<Rightarrow> mask"
  text_px :: "string \<Rightarrow> point \<Rightarrow> real \<Rightarrow> int \<Rightarrow> mask"
  text_size :: "string \<Rightarrow> real \<Rightarrow> int \<Rightarrow> (int \<times> int) \<times> int"
  text_ok :: "string \<Rightarrow> real \<Rightarrow> int \<Rightarrow> bool"
  scalar_int :: "int \<Rightarrow> int"

definition saturate_u8 :: "int \<Rightarrow> 8 word" where
  "saturate_u8 v = (if v < 0 then 0 else if 255 < v then 255 else word_of_int v)"

definition scalar_px :: "color \<Rightarrow> pixel" where
  "scalar_px c = (case c of (c0, c1, c2) \<Rightarrow> (saturate_u8 c0, saturate_u8 c1, saturate_u8 c2))"

definition paint :: "mask \<Rightarrow> color \<Rightarrow> image \<Rightarrow> image" where
  "paint m c img =
     img\<lparr>img_rows :=
       map (\<lambda>(y, row). map (\<lambda>(x, p). if m x y then scalar_px c else p) (enumerate 0 row))
         (enumerate 0 (img_rows img))\<rparr>"

text \<open>A point argument is accepted when both coordinates fit a C \<open>int\<close>.\<close>

definition c_point :: "point \<Rightarrow> bool" where
  "c_point p = (c_int (fst p) \<and> c_int (snd p))"

text \<open>\<open>MAX_THICKNESS\<close> of OpenCV.\<close>

definition max_thickness :: int where
  "max_thickness = 32767"

text \<open>
  \<open>cv2.circle(img, center, radius, color, -1)\<close>: a filled circle. OpenCV asserts
  \<open>radius >= 0\<close>.
\<close>

definition cv2_circle :: "raster \<Rightarrow> image \<Rightarrow> point \<Rightarrow> int \<Rightarrow> color \<Rightarrow> py_error + image" where
  "cv2_circle R img center radius c =
     (if c_point center \<and> c_int radius \<and> 0 \<le> radius
      then Inr (paint (circle_px R center radius) c img)
      else Inl Cv2Error)"

text \<open>
  \<open>cv2.line(img, pt1, pt2, color, thickness=thickness)\<close>. OpenCV asserts
  \<open>0 < thickness && thickness <= MAX_THICKNESS\<close>.
\<close>

definition cv2_line ::
  "raster \<Rightarrow> image \<Rightarrow> point \<Rightarrow> point \<Rightarrow> color \<Rightarrow> int \<Rightarrow> py_error + image" where
  "cv2_line R img p1 p2 c thick =
     (if c_point p1 \<and> c_point p2 \<and> 0 < thick \<and> thick \<le> max_thickness
      then Inr (paint (line_px R p1 p2 thick) c img)
      else Inl Cv2Error)"

text \<open>
  Lines 153 to 166: the polygon \<open>cv2.ellipse2Poly\<close> builds from the two end points
  (centre, half length, angle; stick width 2), filled by \<open>cv2.fillConvexPoly\<close>. The
  polygon depends on the two points only; its pixels are the parameter \<open>limb_poly_px\<close>.
\<close>

definition cv2_fill_limb_poly ::
  "raster \<Rightarrow> image \<Rightarrow> point \<Rightarrow> point \<Rightarrow> color \<Rightarrow> py_error + image" where
  "cv2_fill_limb_poly R img p1 p2 c =
     (if c_point p1 \<and> c_point p2 then Inr (paint (limb_poly_px R p1 p2) c img)
      else Inl Cv2Error)"

text \<open>
  \<open>cv2.rectangle\<close>: an outline, or the filled rectangle for a negative thickness.
  OpenCV asserts \<open>thickness <= MAX_THICKNESS\<close>.
\<close>

definition cv2_rectangle ::
  "raster \<Rightarrow> image \<Rightarrow> point \<Rightarrow> point \<Rightarrow> color \<Rightarrow> int \<Rightarrow> py_error + image" where
  "cv2_rectangle R img p1 p2 c thick =
     (if c_point p1 \<and> c_point p2 \<and> c_int thick \<and> thick \<le> max_thickness
      then Inr (paint (rectangle_px R p1 p2 thick) c img)
      else Inl Cv2Error)"

definition cv2_getTextSize ::
  "raster \<Rightarrow> string \<Rightarrow> real \<Rightarrow> int \<Rightarrow> py_error + (int \<times> int) \<times> int" where
  "cv2_getTextSize R txt fscale thick =
     (if text_ok R txt fscale thick then Inr (text_size R txt fscale thick) else Inl Cv2Error)"

definition cv2_putText ::
  "raster \<Rightarrow> image \<Rightarrow> string \<Rightarrow> point \<Rightarrow> real \<Rightarrow> color \<Rightarrow> int \<Rightarrow> py_error + image" where
  "cv2_putText R img txt org fscale c thick =
     (if c_point org \<and> text_ok R txt fscale thick
      then Inr (paint (text_px R txt org fscale thick) c img)
      else Inl Cv2Error)"

text \<open>\<open>cvRound\<close>: to the nearest integer, a tie to the even one.\<close>

definition cv_round :: "real \<Rightarrow> int" where
  "cv_round v =
     (let f = \<lfloor>v\<rfloor>; d = v - of_int f in
      if d < 1 / 2 then f else if 1 / 2 < d then f + 1 else if even f then f else f + 1)"

definition blend_ch :: "real \<Rightarrow> real \<Rightarrow> real \<Rightarrow> 8 word \<Rightarrow> 8 word \<Rightarrow> 8 word" where
  "blend_ch alpha beta gamma a b =
     saturate_u8 (cv_round (real (unat a) * alpha + real (unat b) * beta + gamma))"

definition blend_px :: "real \<Rightarrow> real \<Rightarrow> real \<Rightarrow> pixel \<Rightarrow> pixel \<Rightarrow> pixel" where
  "blend_px alpha beta gamma p q =
     (case p of (p0, p1, p2) \<Rightarrow> case q of (q0, q1, q2) \<Rightarrow>
        (blend_ch alpha beta gamma p0 q0, blend_ch alpha beta gamma p1 q1,
         blend_ch alpha beta gamma p2 q2))"

text \<open>
  \<open>cv2.addWeighted(src1, alpha, src2, beta, gamma, dst=src2)\<close>. Both operands have one
  shape in this module: the first is a copy of the second with something drawn on it.
\<close>

definition add_weighted :: "image \<Rightarrow> real \<Rightarrow> image \<Rightarrow> real \<Rightarrow> real \<Rightarrow> image" where
  "add_weighted src1 alpha src2 beta gamma =
     src2\<lparr>img_rows := map2 (map2 (blend_px alpha beta gamma)) (img_rows src1) (img_rows src2)\<rparr>"

subsection \<open>\<open>imshow_keypoints\<close>\<close>

text \<open>A 2D keypoint is a row \<open>(x, y, score)\<close> of a \<open>K x 3\<close> array.\<close>

type_synonym kpt = "real \<times> real \<times> real"

definition kpt_score_of :: "kpt \<Rightarrow> real" where
  "kpt_score_of k = snd (snd k)"

definition kpt_pos :: "kpt \<Rightarrow> point" where
  "kpt_pos k = (py_int (fst k), py_int (fst (snd k)))"

record kp_args =
  skeleton :: "(int \<times> int) list option"
  kpt_score_thr :: real
  pose_kpt_color :: "color list option"
  pose_limb_color :: "color list option"
  radius :: int
  thickness :: int
  show_keypoint_weight :: bool

text \<open>Lines 119 to 137, the body of the loop over the keypoints of a pose.\<close>

definition draw_kpt :: "raster \<Rightarrow> kp_args \<Rightarrow> image \<Rightarrow> color \<Rightarrow> kpt \<Rightarrow> py_error + image" where
  "draw_kpt R A img c k =
     (let pos = kpt_pos k; kpt_score = kpt_score_of k in
      if kpt_score > kpt_score_thr A then
        if show_keypoint_weight A then
          (case cv2_circle R img pos (radius A) c of
             Inl e \<Rightarrow> Inl e
           | Inr img_copy \<Rightarrow>
               let transparency = max 0 (min 1 kpt_score)
               in Inr (add_weighted img_copy transparency img (1 - transparency) 0))
        else cv2_circle R img pos (radius A) c
      else Inr img)"

fun draw_kpts ::
  "raster \<Rightarrow> kp_args \<Rightarrow> image \<Rightarrow> color list \<Rightarrow> (nat \<times> kpt) list \<Rightarrow> py_error + image" where
  "draw_kpts R A img cs [] = Inr img"
| "draw_kpts R A img cs ((kid, k) # rest) =
     (case draw_kpt R A img (cs ! kid) k of
        Inl e \<Rightarrow> Inl e
      | Inr img' \<Rightarrow> draw_kpts R A img' cs rest)"

text \<open>Lines 143 to 184, the body of the loop over the skeleton.\<close>

definition inside :: "image \<Rightarrow> point \<Rightarrow> bool" where
  "inside img pos =
     (fst pos > 0 \<and> fst pos < int (img_w img) \<and> snd pos > 0 \<and> snd pos < int (img_h img))"

definition draw_limb ::
  "raster \<Rightarrow> kp_args \<Rightarrow> image \<Rightarrow> kpt list \<Rightarrow> int \<times> int \<Rightarrow> color \<Rightarrow> py_error + image" where
  "draw_limb R A img kpts sk c =
     (case np_index kpts (fst sk - 1) of
        Inl e \<Rightarrow> Inl e
      | Inr k1 \<Rightarrow>
          (case np_index kpts (snd sk - 1) of
             Inl e \<Rightarrow> Inl e
           | Inr k2 \<Rightarrow>
               (let pos1 = kpt_pos k1; pos2 = kpt_pos k2 in
                if inside img pos1 \<and> inside img pos2
                   \<and> kpt_score_of k1 > kpt_score_thr A \<and> kpt_score_of k2 > kpt_score_thr A
                then
                  if show_keypoint_weight A then
                    (case cv2_fill_limb_poly R img pos1 pos2 c of
                       Inl e \<Rightarrow> Inl e
                     | Inr img_copy \<Rightarrow>
                         let transparency =
                               max 0 (min 1 (0.5 * (kpt_score_of k1 + kpt_score_of k2)))
                         in Inr (add_weighted img_copy transparency img (1 - transparency) 0))
                  else cv2_line R img pos1 pos2 c (thickness A)
                else Inr img)))"

fun draw_limbs ::
  "raster \<Rightarrow> kp_args \<Rightarrow> image \<Rightarrow> kpt list \<Rightarrow> color list \<Rightarrow> (nat \<times> int \<times> int) list
     \<Rightarrow> py_error + image" where
  "draw_limbs R A img kpts cs [] = Inr img"
| "draw_limbs R A img kpts cs ((sk_id, sk) # rest) =
     (case draw_limb R A img kpts sk (cs ! sk_id) of
        Inl e \<Rightarrow> Inl e
      | Inr img' \<Rightarrow> draw_limbs R A img' kpts cs rest)"

text \<open>Lines 115 to 184, the body of the loop over the poses.\<close>

definition draw_pose :: "raster \<Rightarrow> kp_args \<Rightarrow> image \<Rightarrow> kpt list \<Rightarrow> py_error + image" where
  "draw_pose R A img kpts =
     (case (case pose_kpt_color A of
              None \<Rightarrow> Inr img
            | Some cs \<Rightarrow>
                if length cs = length kpts then draw_kpts R A img cs (enumerate 0 kpts)
                else Inl AssertionError) of
        Inl e \<Rightarrow> Inl e
      | Inr img1 \<Rightarrow>
          (case (skeleton A, pose_limb_color A) of
             (Some sks, Some ls) \<Rightarrow>
               if length ls = length sks then draw_limbs R A img1 kpts ls (enumerate 0 sks)
               else Inl AssertionError
           | _ \<Rightarrow> Inr img1))"

fun imshow_keypoints :: "raster \<Rightarrow> kp_args \<Rightarrow> image \<Rightarrow> kpt list list \<Rightarrow> py_error + image" where
  "imshow_keypoints R A img [] = Inr img"
| "imshow_keypoints R A img (kpts # pose_result) =
     (case draw_pose R A img kpts of
        Inl e \<Rightarrow> Inl e
      | Inr img' \<Rightarrow> imshow_keypoints R A img' pose_result)"

subsection \<open>\<open>imshow_keypoints_3d\<close>\<close>

text \<open>
  A 3D keypoint is a row \<open>(x, y, z, score)\<close> of a \<open>K x 4\<close> array; a pose record
  holds the array under \<open>keypoints_3d\<close> and may hold a \<open>title\<close>. The function
  builds a matplotlib figure, draws it and reads the pixels of the canvas back. The
  model returns the description of the figure that was drawn (its panels with their
  limits, scattered points and plotted lines), or the error of the step that failed.
\<close>

type_synonym kpt3 = "real \<times> real \<times> real \<times> real"
type_synonym point3 = "real \<times> real \<times> real"
type_synonym rgb = "real \<times> real \<times> real"

definition kpt3_x :: "kpt3 \<Rightarrow> real" where
  "kpt3_x k = fst k"

definition kpt3_y :: "kpt3 \<Rightarrow> real" where
  "kpt3_y k = fst (snd k)"

definition kpt3_z :: "kpt3 \<Rightarrow> real" where
  "kpt3_z k = fst (snd (snd k))"

definition kpt3_score :: "kpt3 \<Rightarrow> real" where
  "kpt3_score k = snd (snd (snd k))"

record pose3d =
  keypoints_3d :: "kpt3 list"
  title :: "string option"

record kp3d_args =
  skeleton3d :: "(int \<times> int) list option"
  pose_kpt_color3d :: "color list option"
  pose_limb_color3d :: "color list option"
  vis_height :: real
  kpt_score_thr3d :: real
  axis_azimuth :: real
  axis_limit :: real
  axis_dist :: real
  axis_elev :: real

record limb_line =
  xs_3d :: "real list"
  ys_3d :: "real list"
  zs_3d :: "real list"
  line_color :: rgb

record axes3d =
  ax_idx :: nat
  view_elev :: real
  view_azim :: real
  view_dist :: real
  xlim3d :: "real \<times> real"
  ylim3d :: "real \<times> real"
  zlim3d :: "real \<times> real"
  scattered :: "(point3 \<times> rgb) list"
  plotted :: "limb_line list"
  ax_title :: "string option"

datatype panel = Input_panel nat | Pose_panel axes3d

record figure =
  figsize :: "real \<times> real"
  subplot_cols :: nat
  panels :: "panel list"

text \<open>
  The steps of matplotlib and mmcv that can fail, each with the error it raises if any:
  \<open>plt.figure\<close> for a figure size (line 240); reading, converting, rescaling and showing
  the input image at a scale (lines 243 to 252); \<open>tight_layout\<close> and \<open>canvas.draw\<close> for
  the finished figure (lines 310 and 311). \<open>dpi\<close> is the resolution of the figure.
\<close>

record mpl =
  figure_err :: "real \<times> real \<Rightarrow> py_error option"
  input_err :: "image \<Rightarrow> real \<Rightarrow> py_error option"
  draw_err :: "figure \<Rightarrow> py_error option"
  dpi :: real

text \<open>Line 237.\<close>

definition num_axis :: "pose3d list \<Rightarrow> image option \<Rightarrow> nat" where
  "num_axis pose_result img =
     (if img \<noteq> None then length pose_result + 1 else length pose_result)"

text \<open>Line 256: the mask \<open>kpts[:, 3] >= kpt_score_thr\<close>, and boolean indexing by it.\<close>

definition valid_mask :: "real \<Rightarrow> kpt3 list \<Rightarrow> bool list" where
  "valid_mask thr kpts = map (\<lambda>k. kpt3_score k \<ge> thr) kpts"

definition np_select :: "bool list \<Rightarrow> 'a list \<Rightarrow> 'a list" where
  "np_select msk xs = map snd (filter fst (zip msk xs))"

definition np_mean :: "real list \<Rightarrow> real" where
  "np_mean vs = sum_list vs / real (length vs)"

text \<open>\<open>sum(valid)\<close>: the number of \<open>True\<close> entries.\<close>

definition sum_valid :: "bool list \<Rightarrow> nat" where
  "sum_valid msk = length (filter (\<lambda>b. b) msk)"

text \<open>Lines 264 and 265.\<close>

definition panel_center :: "real \<Rightarrow> kpt3 list \<Rightarrow> real \<times> real" where
  "panel_center thr kpts =
     (let valid = valid_mask thr kpts;
          x_c = (if sum_valid valid > 0 then np_mean (np_select valid (map kpt3_x kpts)) else 0);
          y_c = (if sum_valid valid > 0 then np_mean (np_select valid (map kpt3_y kpts)) else 0)
      in (x_c, y_c))"

text \<open>Line 283 and line 303: \<open>color[::-1] / 255.\<close>\<close>

definition mpl_color :: "color \<Rightarrow> rgb" where
  "mpl_color c = (case c of (c0, c1, c2) \<Rightarrow> (real_of_int c2 / 255, real_of_int c1 / 255, real_of_int c0 / 255))"

text \<open>Lines 281 to 290: the points and colours handed to \<open>ax.scatter\<close>.\<close>

definition scatter_kpts :: "real \<Rightarrow> kpt3 list \<Rightarrow> color list \<Rightarrow> (point3 \<times> rgb) list" where
  "scatter_kpts thr kpts cs =
     (let valid = valid_mask thr kpts in
      zip (np_select valid (map (\<lambda>k. (kpt3_x k, kpt3_y k, kpt3_z k)) kpts))
          (np_select valid (map mpl_color cs)))"

text \<open>
  Lines 296 to 304, the body of the loop over the limbs: \<open>None\<close> when nothing is
  plotted. Indexing with the list \<open>limb_indices\<close> checks every index.
\<close>

definition plot_limb :: "real \<Rightarrow> kpt3 list \<Rightarrow> int \<times> int \<Rightarrow> color \<Rightarrow> py_error + limb_line option" where
  "plot_limb thr kpts limb limb_color =
     (case np_index kpts (fst limb - 1) of
        Inl e \<Rightarrow> Inl e
      | Inr k1 \<Rightarrow>
          (case np_index kpts (snd limb - 1) of
             Inl e \<Rightarrow> Inl e
           | Inr k2 \<Rightarrow>
               if min (kpt3_score k1) (kpt3_score k2) > thr then
                 Inr (Some \<lparr>xs_3d = [kpt3_x k1, kpt3_x k2], ys_3d = [kpt3_y k1, kpt3_y k2],
                            zs_3d = [kpt3_z k1, kpt3_z k2], line_color = mpl_color limb_color\<rparr>)
               else Inr None))"

fun plot_limbs :: "real \<Rightarrow> kpt3 list \<Rightarrow> ((int \<times> int) \<times> color) list \<Rightarrow> py_error + limb_line list" where
  "plot_limbs thr kpts [] = Inr []"
| "plot_limbs thr kpts ((limb, limb_color) # rest) =
     (case plot_limb thr kpts limb limb_color of
        Inl e \<Rightarrow> Inl e
      | Inr l \<Rightarrow>
          (case plot_limbs thr kpts rest of
             Inl e \<Rightarrow> Inl e
           | Inr ls \<Rightarrow> Inr ((case l of None \<Rightarrow> [] | Some seg \<Rightarrow> [seg]) @ ls)))"

text \<open>Lines 255 to 307, the body of the loop over the pose records.\<close>

definition pose_axes :: "kp3d_args \<Rightarrow> bool \<Rightarrow> nat \<Rightarrow> pose3d \<Rightarrow> py_error + axes3d" where
  "pose_axes A show_img idx res =
     (let kpts = keypoints_3d res;
          thr = kpt_score_thr3d A;
          c = panel_center thr kpts;
          x_c = fst c; y_c = snd c in
      case (case pose_kpt_color3d A of
              None \<Rightarrow> Inr []
            | Some cs \<Rightarrow>
                if length cs = length kpts then Inr (scatter_kpts thr kpts cs)
                else Inl AssertionError) of
        Inl e \<Rightarrow> Inl e
      | Inr pts \<Rightarrow>
          (case (case (skeleton3d A, pose_limb_color3d A) of
                   (Some sks, Some ls) \<Rightarrow>
                     if length ls = length sks then plot_limbs thr kpts (zip sks ls)
                     else Inl AssertionError
                 | _ \<Rightarrow> Inr []) of
             Inl e \<Rightarrow> Inl e
           | Inr lns \<Rightarrow>
               Inr \<lparr>ax_idx = (if show_img then idx + 2 else idx + 1),
                    view_elev = axis_elev A, view_azim = axis_azimuth A,
                    view_dist = axis_dist A,
                    xlim3d = (x_c - axis_limit A / 2, x_c + axis_limit A / 2),
                    ylim3d = (y_c - axis_limit A / 2, y_c + axis_limit A / 2),
                    zlim3d = (0, axis_limit A),
                    scattered = pts, plotted = lns, ax_title = title res\<rparr>))"

fun pose_panels :: "kp3d_args \<Rightarrow> bool \<Rightarrow> (nat \<times> pose3d) list \<Rightarrow> py_error + panel list" where
  "pose_panels A show_img [] = Inr []"
| "pose_panels A show_img ((idx, res) # rest) =
     (case pose_axes A show_img idx res of
        Inl e \<Rightarrow> Inl e
      | Inr ax \<Rightarrow>
          (case pose_panels A show_img rest of
             Inl e \<Rightarrow> Inl e
           | Inr ps \<Rightarrow> Inr (Pose_panel ax # ps)))"

text \<open>
  Lines 243 to 252. The scale \<open>vis_height / img.shape[0]\<close> is a Python division and
  raises \<open>ZeroDivisionError\<close> for an image without rows.
\<close>

definition input_panel :: "mpl \<Rightarrow> kp3d_args \<Rightarrow> image option \<Rightarrow> py_error + panel list" where
  "input_panel M A img =
     (case img of
        None \<Rightarrow> Inr []
      | Some im \<Rightarrow>
          if img_h im = 0 then Inl ZeroDivisionError
          else (case input_err M im (vis_height A / real (img_h im)) of
                  Some e \<Rightarrow> Inl e
                | None \<Rightarrow> Inr [Input_panel 1]))"

text \<open>
  Lines 312 to 314: the size of the canvas in pixels, and the reshape of its bytes to
  \<open>(img_h, img_w, -1)\<close>, which raises \<open>ValueError\<close> when the canvas has no pixel.
\<close>

definition canvas_size :: "mpl \<Rightarrow> real \<times> real \<Rightarrow> int \<times> int" where
  "canvas_size M fs = (py_int (fst fs * dpi M), py_int (snd fs * dpi M))"

definition read_canvas :: "mpl \<Rightarrow> figure \<Rightarrow> py_error + figure" where
  "read_canvas M fig =
     (case canvas_size M (figsize fig) of
        (w, h) \<Rightarrow> if w \<le> 0 \<or> h \<le> 0 then Inl ValueError else Inr fig)"

definition imshow_keypoints_3d ::
  "mpl \<Rightarrow> kp3d_args \<Rightarrow> pose3d list \<Rightarrow> image option \<Rightarrow> py_error + figure" where
  "imshow_keypoints_3d M A pose_result img =
     (let show_img = (img \<noteq> None);
          n = num_axis pose_result img;
          fs = (vis_height A * real n * 0.01, vis_height A * 0.01) in
      case figure_err M fs of
        Some e \<Rightarrow> Inl e
      | None \<Rightarrow>
          (case input_panel M A img of
             Inl e \<Rightarrow> Inl e
           | Inr ip \<Rightarrow>
               (case pose_panels A show_img (enumerate 0 pose_result) of
                  Inl e \<Rightarrow> Inl e
                | Inr ps \<Rightarrow>
                    (let fig = \<lparr>figsize = fs, subplot_cols = n, panels = ip @ ps\<rparr> in
                     case draw_err M fig of
                       Some e \<Rightarrow> Inl e
                     | None \<Rightarrow> read_canvas M fig))))"

subsection \<open>\<open>imshow_bboxes\<close>\<close>

text \<open>
  A box is a row \<open>(x1, y1, x2, y2)\<close> of a \<open>k x 4\<close> array. Colours are given as
  BGR triples (a colour name is taken as resolved). Showing the image in a window and
  writing it to a file leave the returned buffer as it is and are not modelled.
\<close>

type_synonym bbox = "real \<times> real \<times> real \<times> real"

datatype labels_arg = One_label string | Label_list "string list"
datatype colors_arg = One_color color | Color_list "color list"

record bb_args =
  labels :: "labels_arg option"
  colors :: colors_arg
  text_color :: color
  bb_thickness :: int
  font_scale :: real

text \<open>
  Line 42, \<open>np.split(bboxes, bboxes.shape[0], axis=0)\<close>: NumPy first computes
  \<open>N % sections\<close> on Python integers, which raises \<open>ZeroDivisionError\<close> for
  zero sections; with \<open>sections = N > 0\<close> every part is one row.
\<close>

definition np_split_rows :: "'a list \<Rightarrow> py_error + 'a list list" where
  "np_split_rows rows =
     (if length rows = 0 then Inl ZeroDivisionError else Inr (map (\<lambda>b. [b]) rows))"

text \<open>
  \<open>mmcv.color_val\<close> on a tuple asserts that every channel lies between 0 and 255 and
  returns the tuple; line 45 applies it to the colours in order.
\<close>

definition mmcv_color_val :: "color \<Rightarrow> py_error + color" where
  "mmcv_color_val c =
     (case c of (c0, c1, c2) \<Rightarrow>
        if 0 \<le> c0 \<and> c0 \<le> 255 \<and> 0 \<le> c1 \<and> c1 \<le> 255 \<and> 0 \<le> c2 \<and> c2 \<le> 255
        then Inr c else Inl AssertionError)"

fun color_vals :: "color list \<Rightarrow> py_error + color list" where
  "color_vals [] = Inr []"
| "color_vals (c # cs) =
     (case mmcv_color_val c of
        Inl e \<Rightarrow> Inl e
      | Inr v \<Rightarrow> (case color_vals cs of Inl e \<Rightarrow> Inl e | Inr vs \<Rightarrow> Inr (v # vs)))"

text \<open>The first four entries of a row after \<open>astype(np.int32)\<close>.\<close>

definition bbox_int :: "bbox \<Rightarrow> int \<times> int \<times> int \<times> int" where
  "bbox_int b =
     (case b of (x1, y1, x2, y2) \<Rightarrow> (np_int32 x1, np_int32 y1, np_int32 x2, np_int32 y2))"

text \<open>
  \<open>mmcv.imshow_bboxes\<close> with \<open>top_k = -1\<close>: every array is cast to \<open>int32\<close>, and
  every row is drawn as one rectangle outline in the colour of the array.
\<close>

fun mmcv_draw_rows ::
  "raster \<Rightarrow> image \<Rightarrow> bbox list \<Rightarrow> color \<Rightarrow> int \<Rightarrow> py_error + image" where
  "mmcv_draw_rows R img [] c thick = Inr img"
| "mmcv_draw_rows R img (b # rows) c thick =
     (case bbox_int b of (x1, y1, x2, y2) \<Rightarrow>
        (case cv2_rectangle R img (x1, y1) (x2, y2) c thick of
           Inl e \<Rightarrow> Inl e
         | Inr img' \<Rightarrow> mmcv_draw_rows R img' rows c thick))"

fun mmcv_imshow_bboxes ::
  "raster \<Rightarrow> image \<Rightarrow> (bbox list \<times> color) list \<Rightarrow> int \<Rightarrow> py_error + image" where
  "mmcv_imshow_bboxes R img [] thick = Inr img"
| "mmcv_imshow_bboxes R img ((arr, c) # rest) thick =
     (case mmcv_draw_rows R img arr c thick of
        Inl e \<Rightarrow> Inl e
      | Inr img' \<Rightarrow> mmcv_imshow_bboxes R img' rest thick)"

text \<open>
  Lines 63 to 76, the body of the loop over the labels. \<open>max(0, v)\<close> returns the Python
  integer 0 unless \<open>v\<close> is positive, and the sums that follow are then sums of Python
  integers; otherwise they are operations on a NumPy scalar. The text colour is resolved
  before \<open>cv2.putText\<close> is called.
\<close>

definition draw_label ::
  "raster \<Rightarrow> bb_args \<Rightarrow> image \<Rightarrow> bbox list \<Rightarrow> string \<Rightarrow> color \<Rightarrow> py_error + image" where
  "draw_label R A img bbox label c =
     (case np_index bbox 0 of
        Inl e \<Rightarrow> Inl e
      | Inr b \<Rightarrow>
          (case bbox_int b of (b0, b1, b2, b3) \<Rightarrow>
           case cv2_getTextSize R label (font_scale A) (bb_thickness A) of
             Inl e \<Rightarrow> Inl e
           | Inr ((tw, th), text_baseline) \<Rightarrow>
               (let text_x1 = b0;
                    v = scalar_int R (scalar_int R (b1 - th) - text_baseline);
                    text_y1 = max 0 v;
                    text_x2 = scalar_int R (b0 + tw);
                    text_y2 = (if 0 < v then scalar_int R (scalar_int R (v + th) + text_baseline)
                               else th + text_baseline);
                    org_y = (if 0 < v then scalar_int R (text_y2 - text_baseline)
                             else text_y2 - text_baseline)
                in case cv2_rectangle R img (text_x1, text_y1) (text_x2, text_y2) c (- 1) of
                     Inl e \<Rightarrow> Inl e
                   | Inr img1 \<Rightarrow>
                       (case mmcv_color_val (text_color A) of
                          Inl e \<Rightarrow> Inl e
                        | Inr tc \<Rightarrow>
                            cv2_putText R img1 label (text_x1, org_y) (font_scale A) tc
                              (bb_thickness A)))))"

fun draw_labels ::
  "raster \<Rightarrow> bb_args \<Rightarrow> image \<Rightarrow> (bbox list \<times> string \<times> color) list \<Rightarrow> py_error + image" where
  "draw_labels R A img [] = Inr img"
| "draw_labels R A img ((bbox, label, c) # rest) =
     (case draw_label R A img bbox label c of
        Inl e \<Rightarrow> Inl e
      | Inr img' \<Rightarrow> draw_labels R A img' rest)"

definition imshow_bboxes :: "raster \<Rightarrow> bb_args \<Rightarrow> image \<Rightarrow> bbox list \<Rightarrow> py_error + image" where
  "imshow_bboxes R A img bboxes0 =
     (case np_split_rows bboxes0 of
        Inl e \<Rightarrow> Inl e
      | Inr bboxes \<Rightarrow>
          (case color_vals (case colors A of
                              Color_list l \<Rightarrow> l
                            | One_color c \<Rightarrow> replicate (length bboxes) c) of
             Inl e \<Rightarrow> Inl e
           | Inr cs \<Rightarrow>
               if length bboxes \<noteq> length cs then Inl AssertionError
               else
                 (case mmcv_imshow_bboxes R img (zip bboxes cs) (bb_thickness A) of
                    Inl e \<Rightarrow> Inl e
                  | Inr img1 \<Rightarrow>
                      (case labels A of
                         None \<Rightarrow> Inr img1
                       | Some la \<Rightarrow>
                           (let ls = (case la of
                                        Label_list l \<Rightarrow> l
                                      | One_label s \<Rightarrow> replicate (length bboxes) s) in
                            if length ls \<noteq> length bboxes then Inl AssertionError
                            else draw_labels R A img1 (zip bboxes (zip ls cs)))))))"

subsection \<open>Concrete inputs for the examples\<close>

text \<open>
  A small rasteriser (a disc for a circle, the two end points for a line or a limb
  polygon, the bounding box for a rectangle, no pixel for a text, 64-bit results of
  scalar operations), a matplotlib that rejects a negative figure size and a scale that
  is not positive, a black image of three rows and four columns, and argument records
  with the default threshold 0.3.
\<close>

definition demo_raster :: raster where
  "demo_raster =
     \<lparr>circle_px = (\<lambda>(cx, cy) r x y. (int x - cx)\<^sup>2 + (int y - cy)\<^sup>2 \<le> r\<^sup>2),
      line_px = (\<lambda>p1 p2 t x y. (int x, int y) = p1 \<or> (int x, int y) = p2),
      limb_poly_px = (\<lambda>p1 p2 x y. (int x, int y) = p1 \<or> (int x, int y) = p2),
      rectangle_px =
        (\<lambda>(x1, y1) (x2, y2) t x y. x1 \<le> int x \<and> int x \<le> x2 \<and> y1 \<le> int y \<and> int y \<le> y2),
      text_px = (\<lambda>s org fs t x y. False),
      text_size = (\<lambda>s fs t. ((8 * int (length s), 10), 3)),
      text_ok = (\<lambda>s fs t. 0 \<le> t \<and> t \<le> 32767),
      scalar_int = (\<lambda>v. v)\<rparr>"

definition demo_mpl :: mpl where
  "demo_mpl =
     \<lparr>figure_err = (\<lambda>(w, h). if w < 0 \<or> h < 0 then Some ValueError else None),
      input_err = (\<lambda>im s. if s \<le> 0 then Some ValueError else None),
      draw_err = (\<lambda>fig. None),
      dpi = 100\<rparr>"

definition demo_img :: image where
  "demo_img = \<lparr>img_h = 3, img_w = 4, img_rows = replicate 3 (replicate 4 (0, 0, 0))\<rparr>"

definition demo_args :: kp_args where
  "demo_args =
     \<lparr>skeleton = Some [(1, 2)], kpt_score_thr = 3 / 10,
      pose_kpt_color = Some [(255, 128, 0), (0, 255, 0)],
      pose_limb_color = Some [(0, 0, 255)],
      radius = 1, thickness = 1, show_keypoint_weight = False\<rparr>"

definition demo_args3d :: kp3d_args where
  "demo_args3d =
     \<lparr>skeleton3d = Some [(1, 2)],
      pose_kpt_color3d = Some [(255, 0, 0), (0, 255, 0)],
      pose_limb_color3d = Some [(0, 0, 255)],
      vis_height = 400, kpt_score_thr3d = 3 / 10,
      axis_azimuth = 70, axis_limit = 17 / 10, axis_dist = 10, axis_elev = 15\<rparr>"

definition demo_pose3d :: pose3d where
  "demo_pose3d = \<lparr>keypoints_3d = [(1, 2, 3, 3 / 10), (3, 4, 5, 1 / 10)], title = None\<rparr>"

definition demo_bb_args :: bb_args where
  "demo_bb_args =
     \<lparr>labels = Some (Label_list [''a'', ''b'']), colors = One_color (0, 255, 0),
      text_color = (255, 255, 255), bb_thickness = 1, font_scale = 1 / 2\<rparr>"

section \<open>Properties\<close>

subsection \<open>Auxiliary facts\<close>

lemma cv_round_of_int: "cv_round (of_int n) = n"
  by (simp add: cv_round_def)

lemma saturate_u8_uint: "saturate_u8 (uint (a :: 8 word)) = a"
proof -
  have "uint a < 2 ^ LENGTH(8)" by (rule uint_bounded)
  then have "\<not> 255 < uint a" by simp
  moreover have "\<not> uint a < 0" by simp
  ultimately show ?thesis unfolding saturate_u8_def by simp
qed

text \<open>With weights 1 and 0 the blend returns its first operand, channel by channel.\<close>

lemma blend_ch_copy: "blend_ch 1 0 0 a b = a"
proof -
  have "real (unat a) * 1 + real (unat b) * 0 + 0 = of_int (uint a)" by simp
  then have "blend_ch 1 0 0 a b = saturate_u8 (cv_round (of_int (uint a)))"
    unfolding blend_ch_def by presburger
  also have "\<dots> = saturate_u8 (uint a)" by (simp only: cv_round_of_int)
  also have "\<dots> = a" by (rule saturate_u8_uint)
  finally show ?thesis .
qed

lemma blend_px_copy: "blend_px 1 0 0 p q = p"
  by (cases p; cases q) (simp add: blend_px_def blend_ch_copy)

lemma map2_fst_same_length:
  "length xs = length ys \<Longrightarrow> map2 (\<lambda>p q. p) xs ys = xs"
  by (induction xs ys rule: list_induct2) simp_all

lemma map2_rows_copy:
  "length xs = length ys \<Longrightarrow> \<forall>(r, s) \<in> set (zip xs ys). length r = length s \<Longrightarrow>
   map2 (map2 (blend_px 1 0 0)) xs ys = xs"
proof (induction xs ys rule: list_induct2)
  case Nil
  then show ?case by simp
next
  case (Cons x xs y ys)
  have "map2 (blend_px 1 0 0) x y = map2 (\<lambda>p q. p) x y"
    by (simp add: blend_px_copy)
  also have "\<dots> = x" using Cons.prems by (simp add: map2_fst_same_length)
  finally show ?case using Cons by simp
qed

text \<open>Drawing keeps the shape, so blending a drawn copy with weight 1 gives the copy.\<close>

lemma add_weighted_paint_copy:
  "add_weighted (paint m c img) 1 img 0 0 = paint m c img"
proof -
  let ?rows = "img_rows (paint m c img)"
  have len: "length ?rows = length (img_rows img)"
    by (simp add: paint_def)
  have rows: "\<forall>(r, s) \<in> set (zip ?rows (img_rows img)). length r = length s"
    by (auto simp: paint_def set_zip nth_enumerate_eq)
  have "map2 (map2 (blend_px 1 0 0)) ?rows (img_rows img) = ?rows"
    using len rows by (rule map2_rows_copy)
  then show ?thesis by (simp add: add_weighted_def paint_def)
qed

lemma np_index_minus_one: "kpts \<noteq> [] \<Longrightarrow> np_index kpts (0 - 1) = Inr (last kpts)"
  by (cases kpts rule: rev_cases) (simp_all add: np_index_def Let_def nth_append)

lemma np_index_last:
  "kpts \<noteq> [] \<Longrightarrow> np_index kpts (int (length kpts) - 1) = Inr (last kpts)"
  by (cases kpts rule: rev_cases) (simp_all add: np_index_def Let_def nth_append)

lemma draw_limb_cong:
  "np_index kpts (fst sk - 1) = np_index kpts (fst sk' - 1) \<Longrightarrow>
   np_index kpts (snd sk - 1) = np_index kpts (snd sk' - 1) \<Longrightarrow>
   draw_limb R A img kpts sk c = draw_limb R A img kpts sk' c"
  by (simp add: draw_limb_def cong: sum.case_cong)

text \<open>The limb step with both joints resolved.\<close>

lemma draw_limb_resolved:
  assumes "np_index kpts (fst sk - 1) = Inr k1" and "np_index kpts (snd sk - 1) = Inr k2"
  shows "draw_limb R A img kpts sk c =
     (if inside img (kpt_pos k1) \<and> inside img (kpt_pos k2)
         \<and> kpt_score_of k1 > kpt_score_thr A \<and> kpt_score_of k2 > kpt_score_thr A
      then
        if show_keypoint_weight A then
          (case cv2_fill_limb_poly R img (kpt_pos k1) (kpt_pos k2) c of
             Inl e \<Rightarrow> Inl e
           | Inr img_copy \<Rightarrow>
               Inr (add_weighted img_copy
                      (max 0 (min 1 (0.5 * (kpt_score_of k1 + kpt_score_of k2)))) img
                      (1 - max 0 (min 1 (0.5 * (kpt_score_of k1 + kpt_score_of k2)))) 0))
        else cv2_line R img (kpt_pos k1) (kpt_pos k2) c (thickness A)
      else Inr img)"
  using assms by (simp add: draw_limb_def Let_def cong: sum.case_cong)

text \<open>The errors of the drawing loops.\<close>

lemma cv2_circle_error: "cv2_circle R img p r c = Inl e \<Longrightarrow> e = Cv2Error"
  by (simp add: cv2_circle_def split: if_splits)

lemma cv2_circle_paint:
  "cv2_circle R img p r c = Inr img' \<Longrightarrow> img' = paint (circle_px R p r) c img"
  by (simp add: cv2_circle_def split: if_splits)

lemma draw_kpt_error: "draw_kpt R A img c k = Inl e \<Longrightarrow> e = Cv2Error"
  by (auto simp: draw_kpt_def Let_def split: if_splits sum.splits dest: cv2_circle_error)

lemma draw_kpts_error: "draw_kpts R A img cs eks = Inl e \<Longrightarrow> e = Cv2Error"
  by (induction R A img cs eks rule: draw_kpts.induct)
     (auto split: sum.splits dest: draw_kpt_error)

lemma draw_limb_error:
  "draw_limb R A img kpts sk c = Inl e \<Longrightarrow> e = IndexError \<or> e = Cv2Error"
  by (auto simp: draw_limb_def np_index_def Let_def cv2_line_def cv2_fill_limb_poly_def
      split: sum.splits if_splits)

lemma draw_limb_resolved_error:
  "np_index kpts (fst sk - 1) = Inr k1 \<Longrightarrow> np_index kpts (snd sk - 1) = Inr k2 \<Longrightarrow>
   draw_limb R A img kpts sk c \<noteq> Inl IndexError"
  by (auto simp: draw_limb_def Let_def cv2_line_def cv2_fill_limb_poly_def
      split: sum.splits if_splits)

lemma draw_limbs_error:
  "draw_limbs R A img kpts cs sks = Inl e \<Longrightarrow> e = IndexError \<or> e = Cv2Error"
  by (induction R A img kpts cs sks rule: draw_limbs.induct)
     (auto split: sum.splits dest: draw_limb_error)

lemma draw_pose_error:
  "draw_pose R A img kpts = Inl e \<Longrightarrow> e = AssertionError \<or> e = IndexError \<or> e = Cv2Error"
  by (auto simp: draw_pose_def split: option.splits if_splits sum.splits
      dest: draw_limbs_error draw_kpts_error)

text \<open>
  The keypoint loop when OpenCV accepts every circle: one circle (blended in weighted
  mode) for each keypoint above the threshold.
\<close>

lemma draw_kpts_accepted:
  assumes "c_int (radius A)" and "0 \<le> radius A"
    and "\<forall>(kid, k) \<in> set eks. kpt_score_of k > kpt_score_thr A \<longrightarrow> c_point (kpt_pos k)"
  shows "draw_kpts R A img cs eks =
     Inr (foldl (\<lambda>im (kid, k).
                   if show_keypoint_weight A then
                     add_weighted (paint (circle_px R (kpt_pos k) (radius A)) (cs ! kid) im)
                       (max 0 (min 1 (kpt_score_of k))) im
                       (1 - max 0 (min 1 (kpt_score_of k))) 0
                   else paint (circle_px R (kpt_pos k) (radius A)) (cs ! kid) im)
            img (filter (\<lambda>(kid, k). kpt_score_of k > kpt_score_thr A) eks))"
  using assms(3)
proof (induction eks arbitrary: img)
  case Nil
  then show ?case by simp
next
  case (Cons ek eks)
  obtain kid k where ek: "ek = (kid, k)" by (cases ek)
  have rest: "\<forall>(kid, k) \<in> set eks. kpt_score_of k > kpt_score_thr A \<longrightarrow> c_point (kpt_pos k)"
    using Cons.prems by simp
  show ?case
  proof (cases "kpt_score_of k > kpt_score_thr A")
    case True
    then have "c_point (kpt_pos k)" using Cons.prems ek by simp
    then have "cv2_circle R img (kpt_pos k) (radius A) (cs ! kid)
        = Inr (paint (circle_px R (kpt_pos k) (radius A)) (cs ! kid) img)"
      using assms(1,2) by (simp add: cv2_circle_def)
    then show ?thesis using True ek Cons.IH [OF rest]
      by (simp add: draw_kpt_def Let_def)
  next
    case False
    then show ?thesis using ek Cons.IH [OF rest]
      by (simp add: draw_kpt_def Let_def)
  qed
qed

lemma draw_pose_kpt_mismatch:
  "pose_kpt_color A = Some cs \<Longrightarrow> length cs \<noteq> length kpts \<Longrightarrow>
   draw_pose R A img kpts = Inl AssertionError"
  by (simp add: draw_pose_def)

lemma draw_pose_limb_mismatch:
  "skeleton A = Some sks \<Longrightarrow> pose_limb_color A = Some ls \<Longrightarrow> length ls \<noteq> length sks \<Longrightarrow>
   \<exists>e. draw_pose R A img kpts = Inl e \<and> (e = AssertionError \<or> e = Cv2Error)"
  by (auto simp: draw_pose_def split: option.splits sum.splits dest: draw_kpts_error)

lemma draw_pose_limb_mismatch_accepted:
  assumes "skeleton A = Some sks" and "pose_limb_color A = Some ls"
    and "length ls \<noteq> length sks"
    and "c_int (radius A)" and "0 \<le> radius A" and "\<forall>k \<in> set kpts. c_point (kpt_pos k)"
  shows "draw_pose R A img kpts = Inl AssertionError"
proof (cases "pose_kpt_color A")
  case None
  then show ?thesis using assms(1-3) by (simp add: draw_pose_def)
next
  case (Some cs)
  have "\<forall>(kid, k) \<in> set (enumerate 0 kpts).
      kpt_score_of k > kpt_score_thr A \<longrightarrow> c_point (kpt_pos k)"
    using assms(6) by (auto simp: in_set_enumerate_eq) (metis nth_mem)
  from draw_kpts_accepted [OF assms(4,5) this]
  obtain img1 where "draw_kpts R A img cs (enumerate 0 kpts) = Inr img1" by blast
  then show ?thesis using Some assms(1-3) by (simp add: draw_pose_def)
qed

lemma imshow_keypoints_kpt_mismatch:
  "pose_kpt_color A = Some cs \<Longrightarrow> \<exists>kpts \<in> set pose_result. length cs \<noteq> length kpts \<Longrightarrow>
   \<exists>e. imshow_keypoints R A img pose_result = Inl e
      \<and> (e = AssertionError \<or> e = IndexError \<or> e = Cv2Error)"
proof (induction pose_result arbitrary: img)
  case Nil
  then show ?case by simp
next
  case (Cons kpts rest)
  show ?case
  proof (cases "draw_pose R A img kpts")
    case (Inl e)
    then show ?thesis using draw_pose_error [OF Inl] by simp
  next
    case (Inr img')
    have "length cs = length kpts"
    proof (rule ccontr)
      assume "length cs \<noteq> length kpts"
      then have "draw_pose R A img kpts = Inl AssertionError"
        using Cons.prems(1) by (simp add: draw_pose_kpt_mismatch)
      with Inr show False by simp
    qed
    with Cons.prems(2) have "\<exists>kpts \<in> set rest. length cs \<noteq> length kpts" by simp
    from Cons.IH [OF Cons.prems(1) this] Inr show ?thesis by simp
  qed
qed

text \<open>The box renderer before the labels.\<close>

lemma c_int_np_int32: "c_int (np_int32 v)"
  by (simp add: np_int32_def c_int_def)

lemma color_vals_error: "color_vals cs = Inl e \<Longrightarrow> e = AssertionError"
  by (induction cs arbitrary: e)
     (auto simp: mmcv_color_val_def split: sum.splits if_splits prod.splits)

lemma color_vals_length: "color_vals cs = Inr vs \<Longrightarrow> length vs = length cs"
  by (induction cs arbitrary: vs) (auto split: sum.splits)

lemma mmcv_draw_rows_error: "mmcv_draw_rows R img rows c t = Inl e \<Longrightarrow> e = Cv2Error"
  by (induction R img rows c t rule: mmcv_draw_rows.induct)
     (auto simp: cv2_rectangle_def split: sum.splits if_splits prod.splits)

lemma mmcv_imshow_bboxes_error: "mmcv_imshow_bboxes R img bcs t = Inl e \<Longrightarrow> e = Cv2Error"
  by (induction R img bcs t rule: mmcv_imshow_bboxes.induct)
     (auto split: sum.splits dest: mmcv_draw_rows_error)

lemma mmcv_draw_rows_accepted:
  "c_int t \<Longrightarrow> t \<le> max_thickness \<Longrightarrow> \<exists>img'. mmcv_draw_rows R img rows c t = Inr img'"
  by (induction R img rows c t rule: mmcv_draw_rows.induct)
     (auto simp: cv2_rectangle_def c_point_def bbox_int_def c_int_np_int32 split: prod.splits)

lemma mmcv_imshow_bboxes_accepted:
  "c_int t \<Longrightarrow> t \<le> max_thickness \<Longrightarrow> \<exists>img'. mmcv_imshow_bboxes R img bcs t = Inr img'"
proof (induction R img bcs t rule: mmcv_imshow_bboxes.induct)
  case (1 R img thick)
  then show ?case by simp
next
  case (2 R img arr c rest thick)
  obtain img1 where a: "mmcv_draw_rows R img arr c thick = Inr img1"
    using mmcv_draw_rows_accepted [OF "2.prems"] by blast
  then show ?case using "2.IH" [OF a "2.prems"] by simp
qed

lemma imshow_bboxes_label_mismatch:
  assumes "bboxes \<noteq> []" and "labels A = Some (Label_list ls)" and "length ls \<noteq> length bboxes"
  shows "\<exists>e. imshow_bboxes R A img bboxes = Inl e \<and> (e = AssertionError \<or> e = Cv2Error)"
  using assms
  by (auto simp: imshow_bboxes_def np_split_rows_def Let_def
      split: sum.splits dest: color_vals_error mmcv_imshow_bboxes_error)

lemma imshow_bboxes_label_mismatch_accepted:
  assumes "bboxes \<noteq> []" and "labels A = Some (Label_list ls)" and "length ls \<noteq> length bboxes"
    and "c_int (bb_thickness A)" and "bb_thickness A \<le> max_thickness"
  shows "imshow_bboxes R A img bboxes = Inl AssertionError"
proof -
  let ?bs = "map (\<lambda>b. [b]) bboxes"
  let ?cs0 = "case colors A of Color_list l \<Rightarrow> l | One_color c \<Rightarrow> replicate (length ?bs) c"
  have split: "np_split_rows bboxes = Inr ?bs"
    using assms(1) by (simp add: np_split_rows_def)
  show ?thesis
  proof (cases "color_vals ?cs0")
    case (Inl e)
    then have "e = AssertionError" by (rule color_vals_error)
    with Inl split show ?thesis by (simp add: imshow_bboxes_def)
  next
    case (Inr cs)
    show ?thesis
    proof (cases "length ?bs = length cs")
      case False
      with Inr split show ?thesis by (simp add: imshow_bboxes_def)
    next
      case True
      obtain img1 where "mmcv_imshow_bboxes R img (zip ?bs cs) (bb_thickness A) = Inr img1"
        using mmcv_imshow_bboxes_accepted [OF assms(4,5)] by blast
      with Inr split True assms(2,3) show ?thesis by (simp add: imshow_bboxes_def)
    qed
  qed
qed

text \<open>Boolean indexing by the mask of line 256 is a filter on the score.\<close>

lemma np_select_valid:
  "np_select (valid_mask thr kpts) (map f kpts)
     = map f (filter (\<lambda>k. kpt3_score k \<ge> thr) kpts)"
  by (induction kpts) (simp_all add: np_select_def valid_mask_def)

lemma sum_valid_filter:
  "sum_valid (valid_mask thr kpts) = length (filter (\<lambda>k. kpt3_score k \<ge> thr) kpts)"
  by (induction kpts) (simp_all add: sum_valid_def valid_mask_def)

lemma scatter_kpts_eq:
  assumes "length cs = length kpts"
  shows "scatter_kpts thr kpts cs
       = map (\<lambda>(k, c). ((kpt3_x k, kpt3_y k, kpt3_z k), mpl_color c))
           (filter (\<lambda>(k, c). kpt3_score k \<ge> thr) (zip kpts cs))"
  using assms
  by (induction cs kpts rule: list_induct2)
     (simp_all add: scatter_kpts_def Let_def np_select_def valid_mask_def)

lemma pose_panels_length:
  "pose_panels A s xs = Inr ps \<Longrightarrow> length ps = length xs"
  by (induction xs arbitrary: ps) (auto split: sum.splits)

lemma input_panel_length:
  "input_panel M A img = Inr ip \<Longrightarrow> length ip = (if img \<noteq> None then 1 else 0)"
  by (auto simp: input_panel_def split: option.splits if_splits)

lemma demo_call_3d_returns:
  "(\<exists>fig. imshow_keypoints_3d demo_mpl demo_args3d [demo_pose3d] None = Inr fig)
   \<and> (\<exists>fig. imshow_keypoints_3d demo_mpl demo_args3d [demo_pose3d] (Some demo_img) = Inr fig)"
  by (simp add: demo_args3d_def demo_pose3d_def demo_mpl_def demo_img_def
      imshow_keypoints_3d_def input_panel_def read_canvas_def canvas_size_def py_int_def
      num_axis_def enumerate_eq_zip pose_axes_def plot_limb_def np_index_def kpt3_score_def
      Let_def)

subsection \<open>C1: a keypoint whose score equals the threshold\<close>

text \<open>
  The 3D renderer keeps a keypoint whose score equals the threshold: the mask of line 256
  is \<open>kpts[:, 3] >= kpt_score_thr\<close>. In the call below the first keypoint has the
  score 0.3 of the threshold and is the one point handed to \<open>ax.scatter\<close>; the second,
  with score 0.1, is not.
\<close>

theorem threshold_score_scattered_3d:
  "kpt3_score (1, 2, 3, 3 / 10) = kpt_score_thr3d demo_args3d
   \<and> keypoints_3d demo_pose3d = [(1, 2, 3, 3 / 10), (3, 4, 5, 1 / 10)]
   \<and> imshow_keypoints_3d demo_mpl demo_args3d [demo_pose3d] None
      = Inr \<lparr>figsize = (4, 4), subplot_cols = 1,
             panels = [Pose_panel
               \<lparr>ax_idx = 1, view_elev = 15, view_azim = 70, view_dist = 10,
                xlim3d = (3 / 20, 37 / 20), ylim3d = (23 / 20, 57 / 20), zlim3d = (0, 17 / 10),
                scattered = [((1, 2, 3), (0, 0, 1))], plotted = [], ax_title = None\<rparr>]\<rparr>"
  by (simp add: demo_args3d_def demo_pose3d_def demo_mpl_def imshow_keypoints_3d_def
      input_panel_def read_canvas_def canvas_size_def py_int_def num_axis_def
      enumerate_eq_zip pose_axes_def panel_center_def scatter_kpts_def valid_mask_def
      sum_valid_def np_select_def np_mean_def kpt3_score_def kpt3_x_def kpt3_y_def kpt3_z_def
      mpl_color_def plot_limb_def np_index_def Let_def)

text \<open>
  Claim C1, as the code has it. For a keypoint whose score equals \<open>kpt_score_thr\<close>:
  \<^item> the keypoint step of \<open>imshow_keypoints\<close> leaves the buffer as it is (no circle);
  \<^item> the limb step of \<open>imshow_keypoints\<close> with such an end point leaves the buffer as
    it is (no limb), when both joints are in range;
  \<^item> the limb step of \<open>imshow_keypoints_3d\<close> with such an end point plots nothing;
  \<^item> \<open>imshow_keypoints_3d\<close> does scatter the keypoint itself, in its colour (the mask uses
    \<open>>=\<close>).
\<close>

theorem threshold_score_not_visible:
  "(kpt_score_of k = kpt_score_thr A \<longrightarrow> draw_kpt R A img c k = Inr img)
   \<and> (np_index kpts (fst sk - 1) = Inr k1 \<and> np_index kpts (snd sk - 1) = Inr k2
      \<and> (kpt_score_of k1 = kpt_score_thr A \<or> kpt_score_of k2 = kpt_score_thr A)
      \<longrightarrow> draw_limb R A img kpts sk lc = Inr img)
   \<and> (np_index kpts3 (fst limb - 1) = Inr j1 \<and> np_index kpts3 (snd limb - 1) = Inr j2
      \<and> (kpt3_score j1 = thr \<or> kpt3_score j2 = thr)
      \<longrightarrow> plot_limb thr kpts3 limb limb_color = Inr None)
   \<and> (length cs = length kpts3 \<and> i < length kpts3 \<and> kpt3_score (kpts3 ! i) = thr
      \<longrightarrow> ((kpt3_x (kpts3 ! i), kpt3_y (kpts3 ! i), kpt3_z (kpts3 ! i)), mpl_color (cs ! i))
            \<in> set (scatter_kpts thr kpts3 cs))"
proof (intro conjI impI)
  assume "kpt_score_of k = kpt_score_thr A"
  then show "draw_kpt R A img c k = Inr img" by (simp add: draw_kpt_def Let_def)
next
  assume "np_index kpts (fst sk - 1) = Inr k1 \<and> np_index kpts (snd sk - 1) = Inr k2
      \<and> (kpt_score_of k1 = kpt_score_thr A \<or> kpt_score_of k2 = kpt_score_thr A)"
  then show "draw_limb R A img kpts sk lc = Inr img"
    by (auto simp: draw_limb_def Let_def)
next
  assume "np_index kpts3 (fst limb - 1) = Inr j1 \<and> np_index kpts3 (snd limb - 1) = Inr j2
      \<and> (kpt3_score j1 = thr \<or> kpt3_score j2 = thr)"
  then show "plot_limb thr kpts3 limb limb_color = Inr None"
    by (auto simp: plot_limb_def)
next
  assume a: "length cs = length kpts3 \<and> i < length kpts3 \<and> kpt3_score (kpts3 ! i) = thr"
  then have "(kpts3 ! i, cs ! i) \<in> set (filter (\<lambda>(k, c). kpt3_score k \<ge> thr) (zip kpts3 cs))"
    by (auto simp: set_zip)
  then show "((kpt3_x (kpts3 ! i), kpt3_y (kpts3 ! i), kpt3_z (kpts3 ! i)), mpl_color (cs ! i))
            \<in> set (scatter_kpts thr kpts3 cs)"
    using a by (force simp: scatter_kpts_eq)
qed

theorem threshold_score_not_visible_witness:
  "draw_kpt demo_raster demo_args demo_img (255, 128, 0) (1, 1, 3 / 10) = Inr demo_img
   \<and> draw_limb demo_raster demo_args demo_img [(2, 1, 9 / 10), (1, 1, 3 / 10)] (1, 2) (0, 0, 255)
       = Inr demo_img
   \<and> plot_limb (3 / 10) [(1, 2, 3, 3 / 10), (3, 4, 5, 9 / 10)] (1, 2) (0, 0, 255) = Inr None
   \<and> ((1, 2, 3), (0, 0, 1))
       \<in> set (scatter_kpts (3 / 10) [(1, 2, 3, 3 / 10), (3, 4, 5, 9 / 10)]
                [(255, 0, 0), (0, 255, 0)])"
proof -
  let ?k = "(1, 1, 3 / 10) :: kpt"
  let ?kpts = "[(2, 1, 9 / 10), ?k] :: kpt list"
  let ?kpts3 = "[(1, 2, 3, 3 / 10), (3, 4, 5, 9 / 10)] :: kpt3 list"
  let ?cs = "[(255, 0, 0), (0, 255, 0)] :: color list"
  let ?sk = "(1, 2) :: int \<times> int"
  have h1: "kpt_score_of ?k = kpt_score_thr demo_args"
    by (simp add: kpt_score_of_def demo_args_def)
  have h2: "np_index ?kpts (fst ?sk - 1) = Inr (2, 1, 9 / 10)
      \<and> np_index ?kpts (snd ?sk - 1) = Inr ?k
      \<and> (kpt_score_of (2, 1, 9 / 10) = kpt_score_thr demo_args
          \<or> kpt_score_of ?k = kpt_score_thr demo_args)"
    by (simp add: np_index_def kpt_score_of_def demo_args_def)
  have h3: "np_index ?kpts3 (fst ?sk - 1) = Inr (1, 2, 3, 3 / 10)
      \<and> np_index ?kpts3 (snd ?sk - 1) = Inr (3, 4, 5, 9 / 10)
      \<and> (kpt3_score (1, 2, 3, 3 / 10) = 3 / 10 \<or> kpt3_score (3, 4, 5, 9 / 10) = 3 / 10)"
    by (simp add: np_index_def kpt3_score_def)
  have h4: "length ?cs = length ?kpts3 \<and> 0 < length ?kpts3 \<and> kpt3_score (?kpts3 ! 0) = 3 / 10"
    by (simp add: kpt3_score_def)
  note t = threshold_score_not_visible [where k = ?k and A = demo_args and R = demo_raster
      and img = demo_img and c = "(255, 128, 0)" and kpts = ?kpts and sk = ?sk
      and ?k1.0 = "(2, 1, 9 / 10)" and ?k2.0 = ?k and lc = "(0, 0, 255)" and ?kpts3.0 = ?kpts3
      and limb = ?sk and ?j1.0 = "(1, 2, 3, 3 / 10)" and ?j2.0 = "(3, 4, 5, 9 / 10)"
      and thr = "3 / 10" and limb_color = "(0, 0, 255)" and cs = ?cs and i = 0]
  from t h1 have c1: "draw_kpt demo_raster demo_args demo_img (255, 128, 0) ?k = Inr demo_img"
    by blast
  from t h2 have c2: "draw_limb demo_raster demo_args demo_img ?kpts (1, 2) (0, 0, 255)
      = Inr demo_img"
    by blast
  from t h3 have c3: "plot_limb (3 / 10) ?kpts3 (1, 2) (0, 0, 255) = Inr None"
    by blast
  from t h4 have "((kpt3_x (?kpts3 ! 0), kpt3_y (?kpts3 ! 0), kpt3_z (?kpts3 ! 0)),
      mpl_color (?cs ! 0)) \<in> set (scatter_kpts (3 / 10) ?kpts3 ?cs)"
    by blast
  then have c4: "((1, 2, 3), (0, 0, 1)) \<in> set (scatter_kpts (3 / 10) ?kpts3 ?cs)"
    by (simp add: kpt3_x_def kpt3_y_def kpt3_z_def mpl_color_def)
  from c1 c2 c3 c4 show ?thesis by blast
qed

subsection \<open>C2: limbs need both end points strictly inside the image\<close>

text \<open>
  Claim C2. In \<open>imshow_keypoints\<close> a limb whose joints are in range is drawn only if both
  end points, truncated to integers, lie strictly inside the image: when a coordinate of
  an end point is at most 0, or its x is at least the width, or its y is at least the
  height, the limb step returns the buffer as it is and raises nothing. The cases of the
  claim (x equal to the width, y equal to the height, a coordinate equal to 0) are
  instances.
\<close>

theorem limb_outside_image_skipped:
  assumes "np_index kpts (fst sk - 1) = Inr k1" and "np_index kpts (snd sk - 1) = Inr k2"
    and "fst (kpt_pos k1) \<le> 0 \<or> int (img_w img) \<le> fst (kpt_pos k1)
       \<or> snd (kpt_pos k1) \<le> 0 \<or> int (img_h img) \<le> snd (kpt_pos k1)
       \<or> fst (kpt_pos k2) \<le> 0 \<or> int (img_w img) \<le> fst (kpt_pos k2)
       \<or> snd (kpt_pos k2) \<le> 0 \<or> int (img_h img) \<le> snd (kpt_pos k2)"
  shows "draw_limb R A img kpts sk c = Inr img"
  using assms by (auto simp: draw_limb_def inside_def Let_def)

theorem limb_outside_image_skipped_witness:
  "fst (kpt_pos (4, 1, 9 / 10)) = int (img_w demo_img)
   \<and> draw_limb demo_raster demo_args demo_img [(4, 1, 9 / 10), (1, 1, 9 / 10)] (1, 2) (0, 0, 255)
       = Inr demo_img
   \<and> snd (kpt_pos (1, 3, 9 / 10)) = int (img_h demo_img)
   \<and> draw_limb demo_raster demo_args demo_img [(2, 1, 9 / 10), (1, 3, 9 / 10)] (1, 2) (0, 0, 255)
       = Inr demo_img
   \<and> fst (kpt_pos (1 / 2, 1, 9 / 10)) = 0
   \<and> draw_limb demo_raster demo_args demo_img [(1 / 2, 1, 9 / 10), (1, 1, 9 / 10)] (1, 2)
        (0, 0, 255) = Inr demo_img"
proof -
  let ?sk = "(1, 2) :: int \<times> int"
  let ?a = "(4, 1, 9 / 10) :: kpt"
  let ?b = "(1, 1, 9 / 10) :: kpt"
  let ?c = "(2, 1, 9 / 10) :: kpt"
  let ?d = "(1, 3, 9 / 10) :: kpt"
  let ?e = "(1 / 2, 1, 9 / 10) :: kpt"
  have a1: "np_index [?a, ?b] (fst ?sk - 1) = Inr ?a" and a2: "np_index [?a, ?b] (snd ?sk - 1) = Inr ?b"
    by (simp_all add: np_index_def)
  have a3: "fst (kpt_pos ?a) = int (img_w demo_img)"
    by (simp add: kpt_pos_def py_int_def demo_img_def)
  have b1: "np_index [?c, ?d] (fst ?sk - 1) = Inr ?c" and b2: "np_index [?c, ?d] (snd ?sk - 1) = Inr ?d"
    by (simp_all add: np_index_def)
  have b3: "snd (kpt_pos ?d) = int (img_h demo_img)"
    by (simp add: kpt_pos_def py_int_def demo_img_def)
  have c1: "np_index [?e, ?b] (fst ?sk - 1) = Inr ?e" and c2: "np_index [?e, ?b] (snd ?sk - 1) = Inr ?b"
    by (simp_all add: np_index_def)
  have c3: "fst (kpt_pos ?e) = 0"
    by (simp add: kpt_pos_def py_int_def)
  have "draw_limb demo_raster demo_args demo_img [?a, ?b] ?sk (0, 0, 255) = Inr demo_img"
    using a3 by (intro limb_outside_image_skipped [OF a1 a2]) simp
  moreover have "draw_limb demo_raster demo_args demo_img [?c, ?d] ?sk (0, 0, 255) = Inr demo_img"
    using b3 by (intro limb_outside_image_skipped [OF b1 b2]) simp
  moreover have "draw_limb demo_raster demo_args demo_img [?e, ?b] ?sk (0, 0, 255) = Inr demo_img"
    using c3 by (intro limb_outside_image_skipped [OF c1 c2]) simp
  ultimately show ?thesis using a3 b3 c3 by blast
qed

subsection \<open>C3: no boxes\<close>

text \<open>
  Claim C3 says that \<open>imshow_bboxes\<close> with an empty box array raises nothing and returns
  the drawn buffer. The code raises: line 42 splits the array into \<open>bboxes.shape[0] = 0\<close>
  sections before anything else is done, whatever the other arguments are.
\<close>

theorem imshow_bboxes_empty_raises:
  "imshow_bboxes R A img [] = Inl ZeroDivisionError"
  by (simp add: imshow_bboxes_def np_split_rows_def)

subsection \<open>C4: the limbs of the 3D renderer\<close>

text \<open>
  Two end points whose scores equal the threshold meet it (\<open>>=\<close>), and the limb between
  them is not plotted: line 301 tests \<open>kpt_score.min() > kpt_score_thr\<close>.
\<close>

theorem plot_limb_at_threshold_not_drawn:
  "kpt3_score (0, 0, 0, 3 / 10) \<ge> 3 / 10 \<and> kpt3_score (1, 1, 1, 3 / 10) \<ge> 3 / 10
   \<and> plot_limb (3 / 10) [(0, 0, 0, 3 / 10), (1, 1, 1, 3 / 10)] (1, 2) (0, 0, 255) = Inr None"
  by (simp add: plot_limb_def np_index_def kpt3_score_def)

text \<open>
  Claim C4, as the code has it. In \<open>imshow_keypoints_3d\<close> a limb whose joints are in range
  is plotted exactly when the scores of both end points are strictly greater than
  \<open>kpt_score_thr\<close>; it is the segment between the two keypoints, in the colour assigned
  to the limb (reversed and scaled to \<open>[0, 1]\<close>, as matplotlib expects).
\<close>

theorem plot_limb_strict_threshold:
  assumes "np_index kpts (fst limb - 1) = Inr k1" and "np_index kpts (snd limb - 1) = Inr k2"
  shows "plot_limb thr kpts limb limb_color =
     (if kpt3_score k1 > thr \<and> kpt3_score k2 > thr
      then Inr (Some \<lparr>xs_3d = [kpt3_x k1, kpt3_x k2], ys_3d = [kpt3_y k1, kpt3_y k2],
                       zs_3d = [kpt3_z k1, kpt3_z k2], line_color = mpl_color limb_color\<rparr>)
      else Inr None)"
  using assms by (simp add: plot_limb_def)

theorem plot_limb_strict_threshold_witness:
  "plot_limb (3 / 10) [(1, 2, 3, 5 / 10), (3, 4, 5, 4 / 10)] (1, 2) (0, 0, 255)
     = Inr (Some \<lparr>xs_3d = [1, 3], ys_3d = [2, 4], zs_3d = [3, 5], line_color = (1, 0, 0)\<rparr>)
   \<and> plot_limb (3 / 10) [(1, 2, 3, 5 / 10), (3, 4, 5, 3 / 10)] (1, 2) (0, 0, 255) = Inr None"
proof -
  let ?sk = "(1, 2) :: int \<times> int"
  let ?a = "(1, 2, 3, 5 / 10) :: kpt3"
  let ?b = "(3, 4, 5, 4 / 10) :: kpt3"
  let ?c = "(3, 4, 5, 3 / 10) :: kpt3"
  have a1: "np_index [?a, ?b] (fst ?sk - 1) = Inr ?a" and a2: "np_index [?a, ?b] (snd ?sk - 1) = Inr ?b"
    by (simp_all add: np_index_def)
  have b1: "np_index [?a, ?c] (fst ?sk - 1) = Inr ?a" and b2: "np_index [?a, ?c] (snd ?sk - 1) = Inr ?c"
    by (simp_all add: np_index_def)
  show ?thesis
    using plot_limb_strict_threshold [OF a1 a2, of "3 / 10" "(0, 0, 255)"]
      plot_limb_strict_threshold [OF b1 b2, of "3 / 10" "(0, 0, 255)"]
    by (simp add: kpt3_score_def kpt3_x_def kpt3_y_def kpt3_z_def mpl_color_def)
qed

subsection \<open>C5: the number of panels\<close>

text \<open>
  Claim C5. The number of panels of \<open>imshow_keypoints_3d\<close> is the number of pose records,
  plus one if and only if an image is supplied: this is the value of \<open>num_axis\<close>
  (line 237), and when the call returns, it is the number of columns of the subplot grid
  and the number of panels added to the figure.
\<close>

theorem panel_count:
  "num_axis pose_result img = length pose_result + (if img \<noteq> None then 1 else 0)
   \<and> (num_axis pose_result img = length pose_result + 1 \<longleftrightarrow> img \<noteq> None)
   \<and> (imshow_keypoints_3d M A pose_result img = Inr fig \<longrightarrow>
        subplot_cols fig = num_axis pose_result img
        \<and> length (panels fig) = num_axis pose_result img)"
  by (auto simp: num_axis_def imshow_keypoints_3d_def read_canvas_def Let_def
      split: sum.splits option.splits if_splits prod.splits
      dest!: pose_panels_length input_panel_length)

theorem panel_count_witness:
  "\<not> isl (imshow_keypoints_3d demo_mpl demo_args3d [demo_pose3d] (Some demo_img))
   \<and> length (panels (projr (imshow_keypoints_3d demo_mpl demo_args3d [demo_pose3d]
        (Some demo_img)))) = 2
   \<and> \<not> isl (imshow_keypoints_3d demo_mpl demo_args3d [demo_pose3d] None)
   \<and> length (panels (projr (imshow_keypoints_3d demo_mpl demo_args3d [demo_pose3d] None))) = 1"
proof -
  obtain f1 where f1: "imshow_keypoints_3d demo_mpl demo_args3d [demo_pose3d] (Some demo_img)
      = Inr f1"
    using demo_call_3d_returns by blast
  obtain f2 where f2: "imshow_keypoints_3d demo_mpl demo_args3d [demo_pose3d] None = Inr f2"
    using demo_call_3d_returns by blast
  have "length (panels f1) = 2"
    using panel_count [of "[demo_pose3d]" "Some demo_img" demo_mpl demo_args3d f1] f1 by simp
  moreover have "length (panels f2) = 1"
    using panel_count [of "[demo_pose3d]" None demo_mpl demo_args3d f2] f2 by simp
  ultimately show ?thesis using f1 f2 by simp
qed

subsection \<open>C6: the centre of a panel\<close>

text \<open>
  A pose whose one keypoint has exactly the score of the threshold has no keypoint above
  the threshold, and its centre is that keypoint, not the origin: the mask of line 256
  is \<open>>=\<close>.
\<close>

theorem panel_center_at_threshold:
  "filter (\<lambda>k. kpt3_score k > 3 / 10) [(5, 7, 0, 3 / 10)] = []
   \<and> panel_center (3 / 10) [(5, 7, 0, 3 / 10)] = (5, 7)"
  by (simp add: panel_center_def Let_def valid_mask_def sum_valid_def np_select_def np_mean_def
      kpt3_score_def kpt3_x_def kpt3_y_def)

text \<open>
  Claim C6, as the code has it. In \<open>imshow_keypoints_3d\<close> the centre \<open>(x_c, y_c)\<close> of a
  panel is \<open>(0, 0)\<close> when no keypoint of the pose has a score of at least the threshold
  (\<open>>=\<close>), and the mean of the \<open>(x, y)\<close> of the keypoints with a score of at least the
  threshold otherwise. The computation raises nothing: \<open>panel_center\<close> is a total function
  and takes the mean of a non-empty selection only.
\<close>

theorem panel_center_mean_or_origin:
  "panel_center thr kpts =
     (let vs = filter (\<lambda>k. kpt3_score k \<ge> thr) kpts in
      if vs = [] then (0, 0) else (np_mean (map kpt3_x vs), np_mean (map kpt3_y vs)))"
  by (simp add: panel_center_def Let_def np_select_valid sum_valid_filter)

theorem panel_center_mean_or_origin_witness:
  "panel_center (3 / 10) [(5, 7, 0, 2 / 10), (1, 1, 1, 1 / 10)] = (0, 0)
   \<and> panel_center (3 / 10) [(5, 7, 0, 3 / 10), (1, 1, 1, 1 / 10), (2, 4, 0, 9 / 10)] = (7 / 2, 11 / 2)"
  using panel_center_mean_or_origin [of "3 / 10" "[(5, 7, 0, 2 / 10), (1, 1, 1, 1 / 10)]"]
    panel_center_mean_or_origin [of "3 / 10" "[(5, 7, 0, 3 / 10), (1, 1, 1, 1 / 10), (2, 4, 0, 9 / 10)]"]
  by (simp add: kpt3_score_def kpt3_x_def kpt3_y_def np_mean_def)

subsection \<open>C7: weighted drawing at confidence 1\<close>

text \<open>
  Claim C7. For a keypoint with confidence exactly 1 the weighted path of
  \<open>imshow_keypoints\<close> (circle on a copy, then \<open>addWeighted\<close> with the clamped confidence)
  gives the same buffer as the unweighted path: the weights are 1 for the copy and 0 for
  the original. This holds for every threshold, since both paths are behind the same test
  of the score, and when OpenCV rejects the circle both paths raise its error.
\<close>

theorem weighted_full_confidence_same_buffer:
  assumes "kpt_score_of k = 1"
  shows "draw_kpt R (A\<lparr>show_keypoint_weight := True\<rparr>) img c k
       = draw_kpt R (A\<lparr>show_keypoint_weight := False\<rparr>) img c k"
  using assms
  by (auto simp: draw_kpt_def Let_def add_weighted_paint_copy
      split: sum.splits dest: cv2_circle_paint)

theorem weighted_full_confidence_same_buffer_witness:
  "kpt_score_of (1, 1, 1) = 1
   \<and> draw_kpt demo_raster (demo_args\<lparr>show_keypoint_weight := True\<rparr>) demo_img (255, 128, 0) (1, 1, 1)
     = draw_kpt demo_raster (demo_args\<lparr>show_keypoint_weight := False\<rparr>) demo_img (255, 128, 0)
         (1, 1, 1)
   \<and> draw_kpt demo_raster (demo_args\<lparr>show_keypoint_weight := False\<rparr>) demo_img (255, 128, 0)
         (1, 1, 1)
     = Inr \<lparr>img_h = 3, img_w = 4,
            img_rows = [[(0, 0, 0), (255, 128, 0), (0, 0, 0), (0, 0, 0)],
                        [(255, 128, 0), (255, 128, 0), (255, 128, 0), (0, 0, 0)],
                        [(0, 0, 0), (255, 128, 0), (0, 0, 0), (0, 0, 0)]]\<rparr>"
proof -
  have h: "kpt_score_of (1, 1, 1) = 1" by (simp add: kpt_score_of_def)
  have d: "draw_kpt demo_raster (demo_args\<lparr>show_keypoint_weight := False\<rparr>) demo_img (255, 128, 0)
         (1, 1, 1)
     = Inr \<lparr>img_h = 3, img_w = 4,
            img_rows = [[(0, 0, 0), (255, 128, 0), (0, 0, 0), (0, 0, 0)],
                        [(255, 128, 0), (255, 128, 0), (255, 128, 0), (0, 0, 0)],
                        [(0, 0, 0), (255, 128, 0), (0, 0, 0), (0, 0, 0)]]\<rparr>"
    by code_simp
  from weighted_full_confidence_same_buffer [OF h] h d show ?thesis by blast
qed

subsection \<open>C8: mismatched lengths\<close>

text \<open>
  The assertions of \<open>imshow_keypoints\<close> are inside the loop over the poses. With no pose,
  a skeleton of one limb and an empty list of limb colours are not compared, and the call
  returns the image.
\<close>

theorem length_mismatch_unchecked_without_poses:
  "skeleton (demo_args\<lparr>pose_limb_color := Some []\<rparr>) = Some [(1, 2)]
   \<and> pose_limb_color (demo_args\<lparr>pose_limb_color := Some []\<rparr>) = Some []
   \<and> imshow_keypoints demo_raster (demo_args\<lparr>pose_limb_color := Some []\<rparr>) demo_img []
       = Inr demo_img"
  by (simp add: demo_args_def)

text \<open>
  A mismatch can be preceded by another error. The keypoints of a pose are drawn before
  the limb colours are compared with the skeleton (line 141): a keypoint whose coordinate
  does not fit a C \<open>int\<close> makes \<open>cv2.circle\<close> raise first. A mismatch of the keypoint
  colours in a later pose can also be preceded by the \<open>IndexError\<close> of a skeleton
  joint that is out of range in an earlier pose.
\<close>

lemma length_mismatch_after_cv2_error:
  "imshow_keypoints demo_raster (demo_args\<lparr>pose_limb_color := Some []\<rparr>) demo_img
     [[(3000000000, 1, 9 / 10), (1, 1, 9 / 10)]] = Inl Cv2Error"
  by (simp add: demo_args_def draw_pose_def enumerate_eq_zip draw_kpt_def cv2_circle_def
      kpt_pos_def kpt_score_of_def py_int_def c_point_def c_int_def)

lemma length_mismatch_after_index_error:
  "imshow_keypoints demo_raster (demo_args\<lparr>skeleton := Some [(1, 3)]\<rparr>) demo_img
     [[(2, 1, 9 / 10), (1, 1, 9 / 10)], [(2, 1, 9 / 10), (1, 1, 9 / 10), (1, 2, 9 / 10)]]
   = Inl IndexError"
  by (simp add: demo_args_def draw_pose_def enumerate_eq_zip draw_kpt_def cv2_circle_def
      kpt_pos_def kpt_score_of_def py_int_def c_point_def c_int_def draw_limb_def
      np_index_def)

text \<open>
  Claim C8, as the code has it.
  \<^item> \<open>imshow_keypoints\<close> with at least one pose, a skeleton and limb colours of different
    lengths fails: with \<open>AssertionError\<close>, or with the \<open>cv2.error\<close> of a circle of the
    first pose that OpenCV rejects. It is \<open>AssertionError\<close> when the radius is valid and
    the positions of the keypoints of the first pose fit a C \<open>int\<close>.
  \<^item> \<open>imshow_keypoints\<close> with keypoint colours whose number differs from the number of
    keypoints of the first pose fails with \<open>AssertionError\<close>.
  \<^item> \<open>imshow_keypoints\<close> with keypoint colours whose number differs from the number of
    keypoints of some pose fails, with \<open>AssertionError\<close> or with an \<open>IndexError\<close> or a
    \<open>cv2.error\<close> raised in an earlier pose.
  \<^item> \<open>imshow_bboxes\<close> with at least one box and a list of labels of another length
    fails: with \<open>AssertionError\<close>, or with the \<open>cv2.error\<close> of a rectangle that OpenCV
    rejects. It is \<open>AssertionError\<close> when the thickness is a C \<open>int\<close> of at most
    \<open>MAX_THICKNESS\<close>.
\<close>

theorem length_mismatch_fails:
  "(pose_result \<noteq> [] \<and> skeleton A = Some sks \<and> pose_limb_color A = Some ls
      \<and> length ls \<noteq> length sks
      \<longrightarrow> (\<exists>e. imshow_keypoints R A img pose_result = Inl e
               \<and> (e = AssertionError \<or> e = Cv2Error)))
   \<and> (skeleton A = Some sks \<and> pose_limb_color A = Some ls \<and> length ls \<noteq> length sks
      \<and> c_int (radius A) \<and> 0 \<le> radius A \<and> (\<forall>k \<in> set kpts. c_point (kpt_pos k))
      \<longrightarrow> imshow_keypoints R A img (kpts # rest) = Inl AssertionError)
   \<and> (pose_kpt_color A = Some cs \<and> length cs \<noteq> length kpts
      \<longrightarrow> imshow_keypoints R A img (kpts # rest) = Inl AssertionError)
   \<and> (pose_kpt_color A = Some cs \<and> (\<exists>kpts \<in> set pose_result. length cs \<noteq> length kpts)
      \<longrightarrow> (\<exists>e. imshow_keypoints R A img pose_result = Inl e
               \<and> (e = AssertionError \<or> e = IndexError \<or> e = Cv2Error)))
   \<and> (bboxes \<noteq> [] \<and> labels B = Some (Label_list lbls) \<and> length lbls \<noteq> length bboxes
      \<longrightarrow> (\<exists>e. imshow_bboxes R B img bboxes = Inl e
               \<and> (e = AssertionError \<or> e = Cv2Error)))
   \<and> (bboxes \<noteq> [] \<and> labels B = Some (Label_list lbls) \<and> length lbls \<noteq> length bboxes
      \<and> c_int (bb_thickness B) \<and> bb_thickness B \<le> max_thickness
      \<longrightarrow> imshow_bboxes R B img bboxes = Inl AssertionError)"
proof (intro conjI impI)
  assume a: "pose_result \<noteq> [] \<and> skeleton A = Some sks \<and> pose_limb_color A = Some ls
      \<and> length ls \<noteq> length sks"
  then obtain p ps where p: "pose_result = p # ps" by (cases pose_result) auto
  from a obtain e where "draw_pose R A img p = Inl e" and "e = AssertionError \<or> e = Cv2Error"
    using draw_pose_limb_mismatch [of A sks ls R img p] by blast
  with p show "\<exists>e. imshow_keypoints R A img pose_result = Inl e
               \<and> (e = AssertionError \<or> e = Cv2Error)"
    by simp
next
  assume "skeleton A = Some sks \<and> pose_limb_color A = Some ls \<and> length ls \<noteq> length sks
      \<and> c_int (radius A) \<and> 0 \<le> radius A \<and> (\<forall>k \<in> set kpts. c_point (kpt_pos k))"
  then have "draw_pose R A img kpts = Inl AssertionError"
    using draw_pose_limb_mismatch_accepted [of A sks ls kpts R img] by blast
  then show "imshow_keypoints R A img (kpts # rest) = Inl AssertionError" by simp
next
  assume "pose_kpt_color A = Some cs \<and> length cs \<noteq> length kpts"
  then show "imshow_keypoints R A img (kpts # rest) = Inl AssertionError"
    by (simp add: draw_pose_kpt_mismatch)
next
  assume "pose_kpt_color A = Some cs \<and> (\<exists>kpts \<in> set pose_result. length cs \<noteq> length kpts)"
  then show "\<exists>e. imshow_keypoints R A img pose_result = Inl e
               \<and> (e = AssertionError \<or> e = IndexError \<or> e = Cv2Error)"
    using imshow_keypoints_kpt_mismatch [of A cs pose_result R img] by blast
next
  assume "bboxes \<noteq> [] \<and> labels B = Some (Label_list lbls) \<and> length lbls \<noteq> length bboxes"
  then show "\<exists>e. imshow_bboxes R B img bboxes = Inl e \<and> (e = AssertionError \<or> e = Cv2Error)"
    using imshow_bboxes_label_mismatch [of bboxes B lbls R img] by blast
next
  assume "bboxes \<noteq> [] \<and> labels B = Some (Label_list lbls) \<and> length lbls \<noteq> length bboxes
      \<and> c_int (bb_thickness B) \<and> bb_thickness B \<le> max_thickness"
  then show "imshow_bboxes R B img bboxes = Inl AssertionError"
    using imshow_bboxes_label_mismatch_accepted [of bboxes B lbls R img] by blast
qed

theorem length_mismatch_fails_witness:
  "isl (imshow_keypoints demo_raster (demo_args\<lparr>pose_limb_color := Some []\<rparr>) demo_img
         [[(3000000000, 1, 9 / 10), (1, 1, 9 / 10)]])
   \<and> imshow_keypoints demo_raster (demo_args\<lparr>pose_limb_color := Some []\<rparr>) demo_img
      [[(2, 1, 9 / 10), (1, 1, 9 / 10)]] = Inl AssertionError
   \<and> imshow_keypoints demo_raster demo_args demo_img [[(2, 1, 9 / 10)]] = Inl AssertionError
   \<and> isl (imshow_keypoints demo_raster demo_args demo_img
            [[(2, 1, 9 / 10), (1, 1, 9 / 10)], [(2, 1, 9 / 10)]])
   \<and> isl (imshow_bboxes demo_raster (demo_bb_args\<lparr>bb_thickness := 40000\<rparr>) demo_img
            [(0, 0, 1, 1)])
   \<and> imshow_bboxes demo_raster demo_bb_args demo_img [(0, 0, 1, 1)] = Inl AssertionError"
proof -
  let ?A = "demo_args\<lparr>pose_limb_color := Some []\<rparr>"
  let ?B = "demo_bb_args\<lparr>bb_thickness := 40000\<rparr>"
  let ?p0 = "[(3000000000, 1, 9 / 10), (1, 1, 9 / 10)] :: kpt list"
  let ?p2 = "[(2, 1, 9 / 10), (1, 1, 9 / 10)] :: kpt list"
  let ?p1 = "[(2, 1, 9 / 10)] :: kpt list"
  let ?cs = "[(255, 128, 0), (0, 255, 0)] :: color list"
  let ?bb = "[(0, 0, 1, 1)] :: bbox list"
  have h1: "[?p0] \<noteq> [] \<and> skeleton ?A = Some [(1, 2)] \<and> pose_limb_color ?A = Some []
      \<and> length ([] :: color list) \<noteq> length [(1, 2) :: int \<times> int]"
    by (simp add: demo_args_def)
  have h2: "skeleton ?A = Some [(1, 2)] \<and> pose_limb_color ?A = Some []
      \<and> length ([] :: color list) \<noteq> length [(1, 2) :: int \<times> int]
      \<and> c_int (radius ?A) \<and> 0 \<le> radius ?A \<and> (\<forall>k \<in> set ?p2. c_point (kpt_pos k))"
    by (simp add: demo_args_def c_int_def c_point_def kpt_pos_def py_int_def)
  have h3: "pose_kpt_color demo_args = Some ?cs \<and> length ?cs \<noteq> length ?p1"
    by (simp add: demo_args_def)
  have h4: "pose_kpt_color demo_args = Some ?cs
      \<and> (\<exists>kpts \<in> set [?p2, ?p1]. length ?cs \<noteq> length kpts)"
    by (simp add: demo_args_def)
  have h5: "?bb \<noteq> [] \<and> labels ?B = Some (Label_list [''a'', ''b''])
      \<and> length [''a'', ''b''] \<noteq> length ?bb"
    by (simp add: demo_bb_args_def)
  have h6: "?bb \<noteq> [] \<and> labels demo_bb_args = Some (Label_list [''a'', ''b''])
      \<and> length [''a'', ''b''] \<noteq> length ?bb
      \<and> c_int (bb_thickness demo_bb_args) \<and> bb_thickness demo_bb_args \<le> max_thickness"
    by (simp add: demo_bb_args_def c_int_def max_thickness_def)
  note t1 = length_mismatch_fails [where pose_result = "[?p0]" and A = ?A
      and sks = "[(1, 2)]" and ls = "[]" and R = demo_raster and img = demo_img]
  note t2 = length_mismatch_fails [where A = ?A and sks = "[(1, 2)]" and ls = "[]"
      and kpts = ?p2 and rest = "[]" and R = demo_raster and img = demo_img]
  note t3 = length_mismatch_fails [where A = demo_args and cs = ?cs and kpts = ?p1
      and rest = "[]" and R = demo_raster and img = demo_img]
  note t4 = length_mismatch_fails [where A = demo_args and cs = ?cs
      and pose_result = "[?p2, ?p1]" and R = demo_raster and img = demo_img]
  note t5 = length_mismatch_fails [where bboxes = ?bb and B = ?B
      and lbls = "[''a'', ''b'']" and R = demo_raster and img = demo_img]
  note t6 = length_mismatch_fails [where bboxes = ?bb and B = demo_bb_args
      and lbls = "[''a'', ''b'']" and R = demo_raster and img = demo_img]
  from t1 h1 have "\<exists>e. imshow_keypoints demo_raster ?A demo_img [?p0] = Inl e" by blast
  then have c1: "isl (imshow_keypoints demo_raster ?A demo_img [?p0])" by auto
  from t2 h2 have c2: "imshow_keypoints demo_raster ?A demo_img [?p2] = Inl AssertionError"
    by blast
  from t3 h3 have c3: "imshow_keypoints demo_raster demo_args demo_img [?p1] = Inl AssertionError"
    by blast
  from t4 h4 have "\<exists>e. imshow_keypoints demo_raster demo_args demo_img [?p2, ?p1] = Inl e"
    by blast
  then have c4: "isl (imshow_keypoints demo_raster demo_args demo_img [?p2, ?p1])"
    by auto
  from t5 h5 have "\<exists>e. imshow_bboxes demo_raster ?B demo_img ?bb = Inl e" by blast
  then have c5: "isl (imshow_bboxes demo_raster ?B demo_img ?bb)" by auto
  from t6 h6 have c6: "imshow_bboxes demo_raster demo_bb_args demo_img ?bb = Inl AssertionError"
    by blast
  from c1 c2 c3 c4 c5 c6 show ?thesis by blast
qed

subsection \<open>C9: keypoints are not tested against the image bounds\<close>

text \<open>
  A keypoint above the threshold is handed to \<open>cv2.circle\<close> wherever it is, and OpenCV
  rejects a centre whose coordinate does not fit a C \<open>int\<close>: the call below, with a
  keypoint at \<open>x = 3000000000\<close>, raises \<open>cv2.error\<close>.
\<close>

theorem keypoint_far_outside_raises:
  "kpt_score_of (3000000000, 1, 9 / 10) > kpt_score_thr demo_args
   \<and> imshow_keypoints demo_raster demo_args demo_img
       [[(3000000000, 1, 9 / 10), (1, 1, 9 / 10)]] = Inl Cv2Error"
  by (simp add: demo_args_def draw_pose_def enumerate_eq_zip draw_kpt_def cv2_circle_def
      kpt_pos_def kpt_score_of_def py_int_def c_point_def c_int_def)

text \<open>
  Claim C9, as the code has it. The keypoint loop of \<open>imshow_keypoints\<close> (run when
  keypoint colours are given) has no test against the image bounds: every keypoint whose
  score is strictly greater than the threshold is handed to \<open>cv2.circle\<close> at its
  truncated position, inside the image or not.
  \<^item> When the radius is valid and the truncated position of every keypoint above the
    threshold fits a C \<open>int\<close>, the loop raises nothing and draws one circle for each of
    these keypoints, in order. In weighted mode the circle goes to a copy that is blended
    back.
  \<^item> A keypoint above the threshold whose truncated position does not fit a C \<open>int\<close>
    makes the keypoint step raise \<open>cv2.error\<close>.
\<close>

theorem draw_kpts_no_bounds_gate:
  "(c_int (radius A) \<and> 0 \<le> radius A
      \<and> (\<forall>k \<in> set kpts. kpt_score_of k > kpt_score_thr A \<longrightarrow> c_point (kpt_pos k))
      \<longrightarrow> draw_kpts R A img cs (enumerate 0 kpts) =
          Inr (foldl (\<lambda>im (kid, k).
                        if show_keypoint_weight A then
                          add_weighted
                            (paint (circle_px R (kpt_pos k) (radius A)) (cs ! kid) im)
                            (max 0 (min 1 (kpt_score_of k))) im
                            (1 - max 0 (min 1 (kpt_score_of k))) 0
                        else paint (circle_px R (kpt_pos k) (radius A)) (cs ! kid) im)
                 img
                 (filter (\<lambda>(kid, k). kpt_score_of k > kpt_score_thr A) (enumerate 0 kpts))))
   \<and> (kpt_score_of k0 > kpt_score_thr A \<and> \<not> c_point (kpt_pos k0)
      \<longrightarrow> draw_kpt R A img c k0 = Inl Cv2Error)"
proof (intro conjI impI)
  assume a: "c_int (radius A) \<and> 0 \<le> radius A
      \<and> (\<forall>k \<in> set kpts. kpt_score_of k > kpt_score_thr A \<longrightarrow> c_point (kpt_pos k))"
  then have "\<forall>(kid, k) \<in> set (enumerate 0 kpts).
      kpt_score_of k > kpt_score_thr A \<longrightarrow> c_point (kpt_pos k)"
    by (auto simp: in_set_enumerate_eq) (metis nth_mem)
  with a show "draw_kpts R A img cs (enumerate 0 kpts) =
          Inr (foldl (\<lambda>im (kid, k).
                        if show_keypoint_weight A then
                          add_weighted
                            (paint (circle_px R (kpt_pos k) (radius A)) (cs ! kid) im)
                            (max 0 (min 1 (kpt_score_of k))) im
                            (1 - max 0 (min 1 (kpt_score_of k))) 0
                        else paint (circle_px R (kpt_pos k) (radius A)) (cs ! kid) im)
                 img
                 (filter (\<lambda>(kid, k). kpt_score_of k > kpt_score_thr A) (enumerate 0 kpts)))"
    by (intro draw_kpts_accepted) simp_all
next
  assume "kpt_score_of k0 > kpt_score_thr A \<and> \<not> c_point (kpt_pos k0)"
  then show "draw_kpt R A img c k0 = Inl Cv2Error"
    by (simp add: draw_kpt_def cv2_circle_def Let_def)
qed

theorem draw_kpts_no_bounds_gate_witness:
  "\<not> inside demo_img (kpt_pos (4, 1, 9 / 10))
   \<and> draw_kpts demo_raster demo_args demo_img [(255, 128, 0)] (enumerate 0 [(4, 1, 9 / 10)])
     = Inr (paint (circle_px demo_raster (4, 1) 1) (255, 128, 0) demo_img)
   \<and> paint (circle_px demo_raster (4, 1) 1) (255, 128, 0) demo_img
     = \<lparr>img_h = 3, img_w = 4,
        img_rows = [[(0, 0, 0), (0, 0, 0), (0, 0, 0), (0, 0, 0)],
                    [(0, 0, 0), (0, 0, 0), (0, 0, 0), (255, 128, 0)],
                    [(0, 0, 0), (0, 0, 0), (0, 0, 0), (0, 0, 0)]]\<rparr>
   \<and> draw_kpt demo_raster demo_args demo_img (255, 128, 0) (3000000000, 1, 9 / 10)
     = Inl Cv2Error"
proof -
  let ?kpts = "[(4, 1, 9 / 10)] :: kpt list"
  let ?far = "(3000000000, 1, 9 / 10) :: kpt"
  have h1: "c_int (radius demo_args) \<and> 0 \<le> radius demo_args
      \<and> (\<forall>k \<in> set ?kpts. kpt_score_of k > kpt_score_thr demo_args \<longrightarrow> c_point (kpt_pos k))"
    by (simp add: demo_args_def c_point_def c_int_def kpt_pos_def py_int_def)
  have h2: "kpt_score_of ?far > kpt_score_thr demo_args \<and> \<not> c_point (kpt_pos ?far)"
    by (simp add: demo_args_def c_point_def c_int_def kpt_pos_def py_int_def kpt_score_of_def)
  note t = draw_kpts_no_bounds_gate [where A = demo_args and kpts = ?kpts and R = demo_raster
      and img = demo_img and cs = "[(255, 128, 0)]" and ?k0.0 = ?far and c = "(255, 128, 0)"]
  have a: "\<not> inside demo_img (kpt_pos (4, 1, 9 / 10))"
    by (simp add: inside_def demo_img_def kpt_pos_def py_int_def)
  from t h1 have "draw_kpts demo_raster demo_args demo_img [(255, 128, 0)] (enumerate 0 ?kpts)
     = Inr (foldl (\<lambda>im (kid, k).
                        if show_keypoint_weight demo_args then
                          add_weighted
                            (paint (circle_px demo_raster (kpt_pos k) (radius demo_args))
                               ([(255, 128, 0)] ! kid) im)
                            (max 0 (min 1 (kpt_score_of k))) im
                            (1 - max 0 (min 1 (kpt_score_of k))) 0
                        else paint (circle_px demo_raster (kpt_pos k) (radius demo_args))
                               ([(255, 128, 0)] ! kid) im)
                 demo_img
                 (filter (\<lambda>(kid, k). kpt_score_of k > kpt_score_thr demo_args)
                    (enumerate 0 ?kpts)))"
    by blast
  then have b: "draw_kpts demo_raster demo_args demo_img [(255, 128, 0)] (enumerate 0 ?kpts)
     = Inr (paint (circle_px demo_raster (4, 1) 1) (255, 128, 0) demo_img)"
    by (simp add: enumerate_eq_zip kpt_score_of_def kpt_pos_def py_int_def demo_args_def)
  have c: "paint (circle_px demo_raster (4, 1) 1) (255, 128, 0) demo_img
     = \<lparr>img_h = 3, img_w = 4,
        img_rows = [[(0, 0, 0), (0, 0, 0), (0, 0, 0), (0, 0, 0)],
                    [(0, 0, 0), (0, 0, 0), (0, 0, 0), (255, 128, 0)],
                    [(0, 0, 0), (0, 0, 0), (0, 0, 0), (0, 0, 0)]]\<rparr>"
    by code_simp
  from t h2 have d: "draw_kpt demo_raster demo_args demo_img (255, 128, 0) ?far = Inl Cv2Error"
    by blast
  from a b c d show ?thesis by blast
qed

subsection \<open>C10: the joint index 0\<close>

text \<open>
  Claim C10. For a pose with at least one keypoint, the joint index 0 of a skeleton entry
  becomes the index \<open>-1\<close>, which NumPy resolves to the last keypoint. With the other
  joint \<open>j\<close> in range, the limb is evaluated between the last keypoint and the keypoint
  of \<open>j\<close>: both must lie strictly inside the image and be above the threshold, and then
  the line (or, in weighted mode, the blended polygon) between their truncated positions
  is drawn; no \<open>IndexError\<close> is raised. The limb step with joint 0 is the limb step with
  joint \<open>K\<close> (the last keypoint, counted from 1), in either position.
\<close>

theorem joint_index_zero_is_last_keypoint:
  assumes "kpts \<noteq> []" and "np_index kpts (j - 1) = Inr k2"
  shows "np_index kpts (0 - 1) = Inr (last kpts)
    \<and> draw_limb R A img kpts (0, j) c =
        (if inside img (kpt_pos (last kpts)) \<and> inside img (kpt_pos k2)
            \<and> kpt_score_of (last kpts) > kpt_score_thr A \<and> kpt_score_of k2 > kpt_score_thr A
         then
           if show_keypoint_weight A then
             (case cv2_fill_limb_poly R img (kpt_pos (last kpts)) (kpt_pos k2) c of
                Inl e \<Rightarrow> Inl e
              | Inr img_copy \<Rightarrow>
                  Inr (add_weighted img_copy
                         (max 0 (min 1 (0.5 * (kpt_score_of (last kpts) + kpt_score_of k2)))) img
                         (1 - max 0 (min 1 (0.5 * (kpt_score_of (last kpts) + kpt_score_of k2))))
                         0))
           else cv2_line R img (kpt_pos (last kpts)) (kpt_pos k2) c (thickness A)
         else Inr img)
    \<and> draw_limb R A img kpts (0, j) c \<noteq> Inl IndexError
    \<and> draw_limb R A img kpts (0, i) c = draw_limb R A img kpts (int (length kpts), i) c
    \<and> draw_limb R A img kpts (i, 0) c = draw_limb R A img kpts (i, int (length kpts)) c"
proof (intro conjI)
  show m: "np_index kpts (0 - 1) = Inr (last kpts)"
    using assms(1) by (rule np_index_minus_one)
  have m1: "np_index kpts (fst (0, j) - 1) = Inr (last kpts)" using m by simp
  have m2: "np_index kpts (snd (0 :: int, j) - 1) = Inr k2" using assms(2) by simp
  show "draw_limb R A img kpts (0, j) c =
        (if inside img (kpt_pos (last kpts)) \<and> inside img (kpt_pos k2)
            \<and> kpt_score_of (last kpts) > kpt_score_thr A \<and> kpt_score_of k2 > kpt_score_thr A
         then
           if show_keypoint_weight A then
             (case cv2_fill_limb_poly R img (kpt_pos (last kpts)) (kpt_pos k2) c of
                Inl e \<Rightarrow> Inl e
              | Inr img_copy \<Rightarrow>
                  Inr (add_weighted img_copy
                         (max 0 (min 1 (0.5 * (kpt_score_of (last kpts) + kpt_score_of k2)))) img
                         (1 - max 0 (min 1 (0.5 * (kpt_score_of (last kpts) + kpt_score_of k2))))
                         0))
           else cv2_line R img (kpt_pos (last kpts)) (kpt_pos k2) c (thickness A)
         else Inr img)"
    by (rule draw_limb_resolved [OF m1 m2])
  show "draw_limb R A img kpts (0, j) c \<noteq> Inl IndexError"
    by (rule draw_limb_resolved_error [OF m1 m2])
  have e: "np_index kpts (0 - 1) = np_index kpts (int (length kpts) - 1)"
    by (simp only: np_index_minus_one [OF assms(1)] np_index_last [OF assms(1)])
  show "draw_limb R A img kpts (0, i) c = draw_limb R A img kpts (int (length kpts), i) c"
    using e by (intro draw_limb_cong) simp_all
  show "draw_limb R A img kpts (i, 0) c = draw_limb R A img kpts (i, int (length kpts)) c"
    using e by (intro draw_limb_cong) simp_all
qed

theorem joint_index_zero_is_last_keypoint_witness:
  "np_index [(2, 1, 9 / 10), (1, 2, 9 / 10), (1, 1, 9 / 10) :: kpt] (0 - 1) = Inr (1, 1, 9 / 10)
   \<and> draw_limb demo_raster demo_args demo_img [(2, 1, 9 / 10), (1, 2, 9 / 10), (1, 1, 9 / 10)]
        (0, 1) (0, 0, 255)
     = cv2_line demo_raster demo_img (1, 1) (2, 1) (0, 0, 255) 1
   \<and> cv2_line demo_raster demo_img (1, 1) (2, 1) (0, 0, 255) 1
     = Inr \<lparr>img_h = 3, img_w = 4,
            img_rows = [[(0, 0, 0), (0, 0, 0), (0, 0, 0), (0, 0, 0)],
                        [(0, 0, 0), (0, 0, 255), (0, 0, 255), (0, 0, 0)],
                        [(0, 0, 0), (0, 0, 0), (0, 0, 0), (0, 0, 0)]]\<rparr>
   \<and> draw_limb demo_raster demo_args demo_img [(2, 1, 9 / 10), (1, 2, 9 / 10), (1, 1, 9 / 10)]
        (0, 1) (0, 0, 255)
     = draw_limb demo_raster demo_args demo_img [(2, 1, 9 / 10), (1, 2, 9 / 10), (1, 1, 9 / 10)]
        (3, 1) (0, 0, 255)
   \<and> draw_limb demo_raster demo_args demo_img [(2, 1, 9 / 10), (1, 2, 9 / 10), (1, 1, 9 / 10)]
        (4, 1) (0, 0, 255) = Inl IndexError"
proof -
  let ?kpts = "[(2, 1, 9 / 10), (1, 2, 9 / 10), (1, 1, 9 / 10)] :: kpt list"
  have h1: "?kpts \<noteq> []" by simp
  have h2: "np_index ?kpts (1 - 1) = Inr (2, 1, 9 / 10)" by (simp add: np_index_def)
  note t = joint_index_zero_is_last_keypoint [OF h1 h2, of demo_raster demo_args demo_img
      "(0, 0, 255)" 1]
  from t have "np_index ?kpts (0 - 1) = Inr (last ?kpts)" by blast
  then have c1: "np_index ?kpts (0 - 1) = Inr (1, 1, 9 / 10)" by simp
  from t have "draw_limb demo_raster demo_args demo_img ?kpts (0, 1) (0, 0, 255) =
        (if inside demo_img (kpt_pos (last ?kpts)) \<and> inside demo_img (kpt_pos (2, 1, 9 / 10))
            \<and> kpt_score_of (last ?kpts) > kpt_score_thr demo_args
            \<and> kpt_score_of (2, 1, 9 / 10) > kpt_score_thr demo_args
         then
           if show_keypoint_weight demo_args then
             (case cv2_fill_limb_poly demo_raster demo_img (kpt_pos (last ?kpts))
                     (kpt_pos (2, 1, 9 / 10)) (0, 0, 255) of
                Inl e \<Rightarrow> Inl e
              | Inr img_copy \<Rightarrow>
                  Inr (add_weighted img_copy
                         (max 0 (min 1 (0.5 * (kpt_score_of (last ?kpts)
                            + kpt_score_of (2, 1, 9 / 10))))) demo_img
                         (1 - max 0 (min 1 (0.5 * (kpt_score_of (last ?kpts)
                            + kpt_score_of (2, 1, 9 / 10))))) 0))
           else cv2_line demo_raster demo_img (kpt_pos (last ?kpts)) (kpt_pos (2, 1, 9 / 10))
                  (0, 0, 255) (thickness demo_args)
         else Inr demo_img)"
    by blast
  then have c2: "draw_limb demo_raster demo_args demo_img ?kpts (0, 1) (0, 0, 255)
      = cv2_line demo_raster demo_img (1, 1) (2, 1) (0, 0, 255) 1"
    by (simp add: inside_def kpt_pos_def py_int_def kpt_score_of_def demo_args_def demo_img_def)
  have c3: "cv2_line demo_raster demo_img (1, 1) (2, 1) (0, 0, 255) 1
     = Inr \<lparr>img_h = 3, img_w = 4,
            img_rows = [[(0, 0, 0), (0, 0, 0), (0, 0, 0), (0, 0, 0)],
                        [(0, 0, 0), (0, 0, 255), (0, 0, 255), (0, 0, 0)],
                        [(0, 0, 0), (0, 0, 0), (0, 0, 0), (0, 0, 0)]]\<rparr>"
    by code_simp
  from t have c4: "draw_limb demo_raster demo_args demo_img ?kpts (0, 1) (0, 0, 255)
      = draw_limb demo_raster demo_args demo_img ?kpts (int (length ?kpts), 1) (0, 0, 255)"
    by blast
  have l: "int (length ?kpts) = 3" by simp
  have c5: "draw_limb demo_raster demo_args demo_img ?kpts (4, 1) (0, 0, 255) = Inl IndexError"
    by (simp add: draw_limb_def np_index_def)
  from c1 c2 c3 c4 c5 show ?thesis unfolding l by blast
qed

end
